theory Spec2Isabelle
  imports Complex_Main "HOL-Library.AList" "HOL-Library.Sublist" "HOL-Library.Word"
begin

section \<open>Floating-point cells\<close>

text \<open>
  The program (\<^verbatim>\<open>adxapp/utils.py\<close>) computes with pandas columns of 64-bit floats.
  A cell is modelled as \<open>fval\<close>: a finite value, one of the two infinities, or NaN,
  which is what pandas shows as a missing (blank) cell.  Finite arithmetic is exact
  (values are reals): rounding error and overflow of the machine format are outside
  the model, and the two zeros are not told apart, so a nonzero finite value divided
  by zero is the infinity of the numerator's sign.  Columns of 64-bit integers are
  modelled as such where the program computes with them (see \<open>numcol\<close> below).
\<close>

datatype fval = Fin real | PInf | MInf | NaN

fun isnan :: "fval \<Rightarrow> bool" where
  "isnan NaN = True"
| "isnan _ = False"

fun fneg :: "fval \<Rightarrow> fval" where
  "fneg (Fin a) = Fin (- a)"
| "fneg PInf = MInf"
| "fneg MInf = PInf"
| "fneg NaN = NaN"

fun fadd :: "fval \<Rightarrow> fval \<Rightarrow> fval" where
  "fadd (Fin a) (Fin b) = Fin (a + b)"
| "fadd NaN _ = NaN"
| "fadd _ NaN = NaN"
| "fadd PInf MInf = NaN"
| "fadd MInf PInf = NaN"
| "fadd PInf _ = PInf"
| "fadd _ PInf = PInf"
| "fadd MInf _ = MInf"
| "fadd _ MInf = MInf"

definition fsub :: "fval \<Rightarrow> fval \<Rightarrow> fval" where
  "fsub x y = fadd x (fneg y)"

fun fabs :: "fval \<Rightarrow> fval" where
  "fabs (Fin a) = Fin \<bar>a\<bar>"
| "fabs PInf = PInf"
| "fabs MInf = PInf"
| "fabs NaN = NaN"

text \<open>The sign of an infinity or of a finite value, for products and quotients.\<close>

fun fsgn :: "fval \<Rightarrow> int" where
  "fsgn (Fin a) = (if a = 0 then 0 else if 0 < a then 1 else - 1)"
| "fsgn PInf = 1"
| "fsgn MInf = - 1"
| "fsgn NaN = 0"

definition inf_of_sign :: "int \<Rightarrow> fval" where
  "inf_of_sign s = (if s = 0 then NaN else if 0 < s then PInf else MInf)"

fun fmul :: "fval \<Rightarrow> fval \<Rightarrow> fval" where
  "fmul (Fin a) (Fin b) = Fin (a * b)"
| "fmul NaN _ = NaN"
| "fmul _ NaN = NaN"
| "fmul x y = inf_of_sign (fsgn x * fsgn y)"

fun fdiv :: "fval \<Rightarrow> fval \<Rightarrow> fval" where
  "fdiv (Fin a) (Fin b) = (if b = 0 then inf_of_sign (fsgn (Fin a)) else Fin (a / b))"
| "fdiv NaN _ = NaN"
| "fdiv _ NaN = NaN"
| "fdiv (Fin a) _ = Fin 0"
| "fdiv x (Fin b) = inf_of_sign (fsgn x * (if b < 0 then - 1 else 1))"
| "fdiv _ _ = NaN"

text \<open>\<open>x > y\<close> on floats: every comparison with NaN is false.\<close>

fun fgt :: "fval \<Rightarrow> fval \<Rightarrow> bool" where
  "fgt (Fin a) (Fin b) = (b < a)"
| "fgt NaN _ = False"
| "fgt _ NaN = False"
| "fgt PInf PInf = False"
| "fgt PInf _ = True"
| "fgt _ PInf = False"
| "fgt MInf _ = False"
| "fgt _ MInf = True"

definition fmax2 :: "fval \<Rightarrow> fval \<Rightarrow> fval" where
  "fmax2 x y = (if fgt y x then y else x)"

section \<open>Series operations of pandas and numpy used by the program\<close>

text \<open>A series is the list of its cells in row order; the index is the row position.\<close>

type_synonym series = "fval list"

definition shift1 :: "series \<Rightarrow> series" where
  \<comment> \<open>\<^verbatim>\<open>s.shift(1)\<close>\<close>
  "shift1 s = (if s = [] then [] else NaN # butlast s)"

definition fillna0 :: "series \<Rightarrow> series" where
  \<comment> \<open>\<^verbatim>\<open>s.fillna(0)\<close>\<close>
  "fillna0 s = map (\<lambda>x. if isnan x then Fin 0 else x) s"

definition nansum :: "fval list \<Rightarrow> fval" where
  \<comment> \<open>\<^verbatim>\<open>np.nansum\<close>: NaN counts as zero\<close>
  "nansum xs = foldl fadd (Fin 0) (map (\<lambda>x. if isnan x then Fin 0 else x) xs)"

definition row_max :: "fval list \<Rightarrow> fval" where
  \<comment> \<open>one row of \<^verbatim>\<open>df[[...]].max(axis=1)\<close>: NaN is skipped, a row of NaN gives NaN\<close>
  "row_max xs = (case filter (\<lambda>x. \<not> isnan x) xs of [] \<Rightarrow> NaN | v # vs \<Rightarrow> fold (\<lambda>y m. fmax2 m y) vs v)"

definition mean_skipna :: "fval list \<Rightarrow> fval" where
  \<comment> \<open>\<^verbatim>\<open>s.mean()\<close>: the mean of the cells that are not NaN\<close>
  "mean_skipna xs = (let vs = filter (\<lambda>x. \<not> isnan x) xs in
     if vs = [] then NaN else fdiv (foldl fadd (Fin 0) vs) (Fin (real (length vs))))"

definition replace_inf_nan :: "series \<Rightarrow> series" where
  \<comment> \<open>\<^verbatim>\<open>s.replace([np.inf, -np.inf, np.nan], 0)\<close>\<close>
  "replace_inf_nan s = map (\<lambda>x. if x = PInf \<or> x = MInf \<or> x = NaN then Fin 0 else x) s"

section \<open>Wilder's summation\<close>

text \<open>
  \<^verbatim>\<open>wilder_sum_excel_style(series, n)\<close>.  The result starts as a series of NaN of the
  input's length; an input of at most \<open>n\<close> rows is returned like that.  Otherwise the
  sum of \<^verbatim>\<open>arr[1:n+1]\<close> is stored at index \<open>n\<close> and the loop over
  \<^verbatim>\<open>range(n + 1, len(arr))\<close> fills the rest from the previous result cell.
\<close>

definition wilder_step :: "nat \<Rightarrow> series \<Rightarrow> nat \<Rightarrow> series \<Rightarrow> series" where
  "wilder_step n arr i result =
     (let prev = result ! (i - 1) in
      if isnan prev then result[i := NaN]
      else result[i := fadd (fsub prev (fdiv prev (Fin (real n)))) (arr ! i)])"

definition wilder_sum_excel_style :: "series \<Rightarrow> nat \<Rightarrow> series" where
  "wilder_sum_excel_style series n =
     (let result = replicate (length series) NaN in
      if length series \<le> n then result
      else
        let arr = series;
            initial_sum = nansum (take n (drop 1 arr));
            result = result[n := initial_sum]
        in fold (wilder_step n arr) [n + 1 ..< length arr] result)"

section \<open>The indicator columns\<close>

text \<open>
  The columns that \<^verbatim>\<open>calculate_adx\<close> derives, each as a function of the numeric
  \<^verbatim>\<open>High\<close>, \<^verbatim>\<open>Low\<close> and \<^verbatim>\<open>Close\<close> columns (the result of \<^verbatim>\<open>pd.to_numeric\<close>), one definition
  per assignment of the source.  Where the source reads \<^verbatim>\<open>df['X']\<close>, the definition uses the value last
  assigned to \<^verbatim>\<open>X\<close>.
\<close>

definition N :: nat where
  "N = 14"

text \<open>
  A numeric column is of dtype \<^verbatim>\<open>int64\<close> or \<^verbatim>\<open>float64\<close>: \<^verbatim>\<open>pd.to_numeric\<close> leaves a column
  of integers as it is.  The difference of two integer columns is an integer column,
  computed with wrap-around at 64 bits.  An integer column that meets a float column is
  converted to floats (here exactly), and \<^verbatim>\<open>shift(1)\<close> makes a float column of it, since
  the first row becomes NaN.
\<close>

datatype numcol = Int64 "64 word list" | Float64 series

definition float_of_int64 :: "64 word \<Rightarrow> fval" where
  "float_of_int64 k = Fin (real_of_int (sint k))"

fun floats :: "numcol \<Rightarrow> series" where
  "floats (Int64 ks) = map float_of_int64 ks"
| "floats (Float64 s) = s"

definition Prev_Close :: "numcol \<Rightarrow> series" where
  "Prev_Close close = shift1 (floats close)"

definition Prev_High :: "numcol \<Rightarrow> series" where
  "Prev_High high = shift1 (floats high)"

definition Prev_Low :: "numcol \<Rightarrow> series" where
  "Prev_Low low = shift1 (floats low)"

fun TR1 :: "numcol \<Rightarrow> numcol \<Rightarrow> numcol" where
  \<comment> \<open>\<^verbatim>\<open>df['High'] - df['Low']\<close>\<close>
  "TR1 (Int64 hs) (Int64 ls) = Int64 (map2 (-) hs ls)"
| "TR1 high low = Float64 (map2 fsub (floats high) (floats low))"

definition TR2 :: "numcol \<Rightarrow> numcol \<Rightarrow> series" where
  "TR2 high close = map fabs (map2 fsub (floats high) (Prev_Close close))"

definition TR3 :: "numcol \<Rightarrow> numcol \<Rightarrow> series" where
  "TR3 low close = map fabs (map2 fsub (floats low) (Prev_Close close))"

definition TR_max :: "numcol \<Rightarrow> numcol \<Rightarrow> numcol \<Rightarrow> series" where
  \<comment> \<open>\<^verbatim>\<open>df[['TR1', 'TR2', 'TR3']].max(axis=1)\<close>\<close>
  "TR_max high low close =
     map (\<lambda>(a, b, c). row_max [a, b, c]) (zip (floats (TR1 high low)) (zip (TR2 high close) (TR3 low close)))"

definition TR :: "numcol \<Rightarrow> numcol \<Rightarrow> numcol \<Rightarrow> series" where
  \<comment> \<open>\<^verbatim>\<open>df.loc[df.index[0], 'TR'] = np.nan\<close>, for a table with a first row\<close>
  "TR high low close = (TR_max high low close)[0 := NaN]"

definition UpMove :: "numcol \<Rightarrow> series" where
  "UpMove high = map2 fsub (floats high) (Prev_High high)"

definition DownMove :: "numcol \<Rightarrow> series" where
  "DownMove low = map2 fsub (Prev_Low low) (floats low)"

definition plus_DM_where :: "numcol \<Rightarrow> numcol \<Rightarrow> series" where
  \<comment> \<open>\<^verbatim>\<open>np.where((UpMove > DownMove) & (UpMove > 0), UpMove, 0.0)\<close>\<close>
  "plus_DM_where high low =
     map2 (\<lambda>up down. if fgt up down \<and> fgt up (Fin 0) then up else Fin 0) (UpMove high) (DownMove low)"

definition minus_DM_where :: "numcol \<Rightarrow> numcol \<Rightarrow> series" where
  \<comment> \<open>\<^verbatim>\<open>np.where((DownMove > UpMove) & (DownMove > 0), DownMove, 0.0)\<close>\<close>
  "minus_DM_where high low =
     map2 (\<lambda>up down. if fgt down up \<and> fgt down (Fin 0) then down else Fin 0) (UpMove high) (DownMove low)"

definition plus_DM_1 :: "numcol \<Rightarrow> numcol \<Rightarrow> series" where
  \<comment> \<open>the first row set to NaN, \<^verbatim>\<open>if len(df) >= 1\<close>\<close>
  "plus_DM_1 high low = (plus_DM_where high low)[0 := NaN]"

definition minus_DM_1 :: "numcol \<Rightarrow> numcol \<Rightarrow> series" where
  "minus_DM_1 high low = (minus_DM_where high low)[0 := NaN]"

definition TR14 :: "numcol \<Rightarrow> numcol \<Rightarrow> numcol \<Rightarrow> series" where
  "TR14 high low close = wilder_sum_excel_style (fillna0 (TR high low close)) N"

definition plus_DM14 :: "numcol \<Rightarrow> numcol \<Rightarrow> series" where
  "plus_DM14 high low = wilder_sum_excel_style (fillna0 (plus_DM_1 high low)) N"

definition minus_DM14 :: "numcol \<Rightarrow> numcol \<Rightarrow> series" where
  "minus_DM14 high low = wilder_sum_excel_style (fillna0 (minus_DM_1 high low)) N"

definition plus_DI14 :: "numcol \<Rightarrow> numcol \<Rightarrow> numcol \<Rightarrow> series" where
  "plus_DI14 high low close =
     map2 (\<lambda>dm tr. fmul (fdiv dm tr) (Fin 100)) (plus_DM14 high low) (TR14 high low close)"

definition minus_DI14 :: "numcol \<Rightarrow> numcol \<Rightarrow> numcol \<Rightarrow> series" where
  "minus_DI14 high low close =
     map2 (\<lambda>dm tr. fmul (fdiv dm tr) (Fin 100)) (minus_DM14 high low) (TR14 high low close)"

definition DI_14_Diff :: "numcol \<Rightarrow> numcol \<Rightarrow> numcol \<Rightarrow> series" where
  "DI_14_Diff high low close =
     map fabs (map2 fsub (plus_DI14 high low close) (minus_DI14 high low close))"

definition DI_14_Sum :: "numcol \<Rightarrow> numcol \<Rightarrow> numcol \<Rightarrow> series" where
  "DI_14_Sum high low close = map2 fadd (plus_DI14 high low close) (minus_DI14 high low close)"

definition DX_ratio :: "numcol \<Rightarrow> numcol \<Rightarrow> numcol \<Rightarrow> series" where
  \<comment> \<open>\<^verbatim>\<open>(df['DI 14 Diff'] / df['DI 14 Sum']) * 100\<close>\<close>
  "DX_ratio high low close =
     map2 (\<lambda>d s. fmul (fdiv d s) (Fin 100)) (DI_14_Diff high low close) (DI_14_Sum high low close)"

definition DX :: "numcol \<Rightarrow> numcol \<Rightarrow> numcol \<Rightarrow> series" where
  "DX high low close = replace_inf_nan (DX_ratio high low close)"

text \<open>
  The ADX loop: a series of NaN; if the table has more than \<open>end = 2 * N - 1\<close> rows, the
  mean of \<^verbatim>\<open>DX.iloc[start:end + 1]\<close> is stored at \<open>end\<close> and the loop over
  \<^verbatim>\<open>range(end + 1, len(df))\<close> fills the rest.
\<close>

definition adx_step :: "series \<Rightarrow> nat \<Rightarrow> series \<Rightarrow> series" where
  "adx_step dx i adx =
     (let prev = adx ! (i - 1) in
      adx[i := fdiv (fadd (fmul prev (Fin (real (N - 1)))) (dx ! i)) (Fin (real N))])"

definition adx_series :: "series \<Rightarrow> series" where
  "adx_series dx =
     (let adx = replicate (length dx) NaN;
          start = N;
          end = 2 * N - 1
      in if end < length dx
         then fold (adx_step dx) [end + 1 ..< length dx]
                (adx[end := mean_skipna (take (end + 1 - start) (drop start dx))])
         else adx)"

definition ADX :: "numcol \<Rightarrow> numcol \<Rightarrow> numcol \<Rightarrow> series" where
  "ADX high low close = adx_series (DX high low close)"

text \<open>
  \<^verbatim>\<open>round(6)\<close>: to the nearest multiple of \<open>10\<^sup>-\<^sup>6\<close>, a tie to the even one, as numpy
  rounds; the infinities and NaN stay.
\<close>

definition round_half_even :: "real \<Rightarrow> int" where
  "round_half_even y =
     (let f = \<lfloor>y\<rfloor>; d = y - of_int f in
      if d < 1 / 2 then f else if 1 / 2 < d then f + 1 else if even f then f else f + 1)"

fun round6 :: "fval \<Rightarrow> fval" where
  "round6 (Fin a) = Fin (of_int (round_half_even (a * 1000000)) / 1000000)"
| "round6 x = x"

section \<open>Tables\<close>

text \<open>
  A table (a pandas \<^verbatim>\<open>DataFrame\<close>) is the list of its columns in header order, each a
  name and the cells of the column in row order; all columns have the same number of
  rows.  A cell holds a float, a 64-bit integer or a text.  A column is of a numeric
  dtype when its cells are all floats or all integers, as in a table read from a CSV
  file.
\<close>

datatype cell = Num fval | Intg "64 word" | Txt string

type_synonym column = "cell list"

type_synonym frame = "(string \<times> column) list"

text \<open>
  Three functions of the libraries are parameters of the model: how \<^verbatim>\<open>pd.to_numeric\<close>
  reads a text cell (an integer, a float, or \<open>None\<close> when the text is not a number), and
  the texts that \<^verbatim>\<open>astype(str)\<close> gives for a float and for an integer.
\<close>

record pandas =
  text_to_number :: "string \<Rightarrow> (64 word + fval) option"
  float_to_text :: "fval \<Rightarrow> string"
  int_to_text :: "64 word \<Rightarrow> string"

fun read_cell :: "pandas \<Rightarrow> cell \<Rightarrow> 64 word + fval" where
  \<comment> \<open>one cell under \<^verbatim>\<open>errors='coerce'\<close>: a text that is not a number becomes NaN\<close>
  "read_cell L (Num v) = Inr v"
| "read_cell L (Intg k) = Inl k"
| "read_cell L (Txt s) = (case text_to_number L s of Some n \<Rightarrow> n | None \<Rightarrow> Inr NaN)"

definition to_numeric :: "pandas \<Rightarrow> column \<Rightarrow> numcol" where
  \<comment> \<open>\<^verbatim>\<open>pd.to_numeric(col, errors='coerce')\<close>: \<^verbatim>\<open>int64\<close> when every cell is an integer, else \<^verbatim>\<open>float64\<close>\<close>
  "to_numeric L col =
     (let ns = map (read_cell L) col in
      case those (map (\<lambda>n. case n of Inl k \<Rightarrow> Some k | Inr v \<Rightarrow> None) ns) of
        Some ks \<Rightarrow> Int64 ks
      | None \<Rightarrow> Float64 (map (\<lambda>n. case n of Inl k \<Rightarrow> float_of_int64 k | Inr v \<Rightarrow> v) ns))"

fun cells :: "numcol \<Rightarrow> column" where
  "cells (Int64 ks) = map Intg ks"
| "cells (Float64 s) = map Num s"

fun astype_str :: "pandas \<Rightarrow> cell \<Rightarrow> cell" where
  "astype_str L (Num v) = Txt (float_to_text L v)"
| "astype_str L (Intg k) = Txt (int_to_text L k)"
| "astype_str L (Txt s) = Txt s"

fun is_Num :: "cell \<Rightarrow> bool" where
  "is_Num (Num v) = True"
| "is_Num c = False"

fun is_Int :: "cell \<Rightarrow> bool" where
  "is_Int (Intg k) = True"
| "is_Int c = False"

fun round_cell :: "cell \<Rightarrow> cell" where
  "round_cell (Num v) = Num (round6 v)"
| "round_cell c = c"

definition round_numeric :: "frame \<Rightarrow> frame" where
  \<comment> \<open>\<^verbatim>\<open>df[num_cols] = df[num_cols].round(6)\<close> over the columns of a numeric dtype\<close>
  "round_numeric df =
     map (\<lambda>(name, col). (name, if list_all is_Num col \<or> list_all is_Int col then map round_cell col else col)) df"

definition assign :: "string \<Rightarrow> numcol \<Rightarrow> frame \<Rightarrow> frame" where
  \<comment> \<open>\<^verbatim>\<open>df[name] = s\<close>: the column is replaced where it stands, or added last\<close>
  "assign name s df = AList.update name (cells s) df"

definition select_present :: "string list \<Rightarrow> frame \<Rightarrow> frame" where
  \<comment> \<open>\<^verbatim>\<open>df[[c for c in final if c in df.columns]]\<close>\<close>
  "select_present final df = List.map_filter (\<lambda>name. map_option (Pair name) (map_of df name)) final"

section \<open>Column detection\<close>

definition lower_char :: "char \<Rightarrow> char" where
  \<comment> \<open>\<^verbatim>\<open>str.lower\<close> on one character, for the letters of ASCII\<close>
  "lower_char c = (let k = (of_char c :: nat) in if 65 \<le> k \<and> k \<le> 90 then char_of (k + 32) else c)"

definition lower_str :: "string \<Rightarrow> string" where
  "lower_str s = map lower_char s"

definition lower_dict :: "string list \<Rightarrow> (string \<times> string) list" where
  \<comment> \<open>\<^verbatim>\<open>{c.lower(): c for c in df.columns}\<close>: a key keeps its first place and its last value\<close>
  "lower_dict columns = fold (\<lambda>c d. AList.update (lower_str c) c d) columns []"

definition candidates :: "(string \<times> string list) list" where
  "candidates = [(''open'', [''open'', ''o'']), (''high'', [''high'', ''h'']),
                 (''low'', [''low'', ''l'']), (''close'', [''close'', ''c''])]"

fun first_opt :: "(string \<times> string) list \<Rightarrow> string list \<Rightarrow> string option" where
  \<comment> \<open>the loop over \<^verbatim>\<open>opts\<close>, left at the first one that is a key of \<^verbatim>\<open>lower\<close>\<close>
  "first_opt lower [] = None"
| "first_opt lower (opt # opts) =
     (case map_of lower opt of Some orig \<Rightarrow> Some orig | None \<Rightarrow> first_opt lower opts)"

fun first_containing :: "string \<Rightarrow> (string \<times> string) list \<Rightarrow> string option" where
  \<comment> \<open>the loop over \<^verbatim>\<open>lower.items()\<close>, left at the first name that contains \<^verbatim>\<open>key\<close>\<close>
  "first_containing key [] = None"
| "first_containing key ((name_lower, orig) # rest) =
     (if sublist key name_lower then Some orig else first_containing key rest)"

definition detect_one :: "(string \<times> string) list \<Rightarrow> string \<Rightarrow> string list \<Rightarrow> string option" where
  \<comment> \<open>the body of the loop over \<^verbatim>\<open>candidates.items()\<close>; \<^verbatim>\<open>not found\<close> holds of \<^verbatim>\<open>None\<close> and of the empty string\<close>
  "detect_one lower key opts =
     (let found = first_opt lower opts in
      if found = None \<or> found = Some [] then first_containing key lower else found)"

definition detect_ohlc_columns :: "frame \<Rightarrow> (string \<times> string option) list" where
  "detect_ohlc_columns df =
     (let lower = lower_dict (map fst df)
      in map (\<lambda>(key, opts). (key, detect_one lower key opts)) candidates)"

section \<open>The computation\<close>

datatype error =
    ValueError string  \<comment> \<open>raised by \<^verbatim>\<open>calculate_adx\<close> for missing columns\<close>
  | KeyError           \<comment> \<open>selecting a column that the table does not have\<close>
  | IndexError         \<comment> \<open>\<^verbatim>\<open>df.columns[0]\<close> or \<^verbatim>\<open>df.index[0]\<close> of an empty index\<close>
  | Unmodelled         \<comment> \<open>an input outside this model\<close>

fun join :: "string \<Rightarrow> string list \<Rightarrow> string" where
  "join sep [] = []"
| "join sep [x] = x"
| "join sep (x # y # ys) = x @ sep @ join sep (y # ys)"

definition missing_message :: "(string \<times> string option) list \<Rightarrow> string" where
  "missing_message ohlc_map =
     ''Missing OHLC columns in input CSV: '' @ join '', '' (map fst (filter (\<lambda>(k, v). v = None) ohlc_map))"

definition rename_columns :: "(string \<times> string) list \<Rightarrow> frame \<Rightarrow> frame" where
  \<comment> \<open>\<^verbatim>\<open>df.rename(columns={...})\<close>; in the dict display a repeated key keeps its last value\<close>
  "rename_columns pairs df =
     (let d = fold (\<lambda>(k, v) d. AList.update k v d) pairs []
      in map (\<lambda>(name, col). (case map_of d name of Some new \<Rightarrow> (new, col) | None \<Rightarrow> (name, col))) df)"

definition assign_all :: "(string \<times> numcol) list \<Rightarrow> frame \<Rightarrow> frame" where
  "assign_all as df = fold (\<lambda>(name, s) df. assign name s df) as df"

definition prepare_assignments :: "numcol \<Rightarrow> numcol \<Rightarrow> numcol \<Rightarrow> numcol \<Rightarrow> (string \<times> numcol) list" where
  \<comment> \<open>the assignments from \<^verbatim>\<open>pd.to_numeric\<close> to \<^verbatim>\<open>df['TR'] = ....max(axis=1)\<close>, in order\<close>
  "prepare_assignments opn high low close =
     [(''Open'', opn), (''High'', high), (''Low'', low), (''Close'', close),
      (''Prev_Close'', Float64 (Prev_Close close)), (''Prev_High'', Float64 (Prev_High high)),
      (''Prev_Low'', Float64 (Prev_Low low)),
      (''TR1'', TR1 high low), (''TR2'', Float64 (TR2 high close)), (''TR3'', Float64 (TR3 low close)),
      (''TR'', Float64 (TR_max high low close))]"

definition indicator_assignments :: "numcol \<Rightarrow> numcol \<Rightarrow> numcol \<Rightarrow> (string \<times> numcol) list" where
  \<comment> \<open>the assignments from the blank first \<^verbatim>\<open>TR\<close> to \<^verbatim>\<open>df['ADX'] = adx\<close>, in order\<close>
  "indicator_assignments high low close =
     map (\<lambda>(name, s). (name, Float64 s))
     [(''TR'', TR high low close),
      (''UpMove'', UpMove high), (''DownMove'', DownMove low),
      (''+DM 1'', plus_DM_where high low), (''-DM 1'', minus_DM_where high low),
      (''+DM 1'', plus_DM_1 high low), (''-DM 1'', minus_DM_1 high low),
      (''TR14'', TR14 high low close), (''+DM14'', plus_DM14 high low), (''-DM14'', minus_DM14 high low),
      (''+DI14'', plus_DI14 high low close), (''-DI14'', minus_DI14 high low close),
      (''DI 14 Diff'', DI_14_Diff high low close), (''DI 14 Sum'', DI_14_Sum high low close),
      (''DX'', DX_ratio high low close), (''DX'', DX high low close),
      (''ADX'', ADX high low close)]"

definition final_columns :: "string list" where
  "final_columns = [''Open'', ''High'', ''Low'', ''Close'', ''TR'', ''+DM 1'', ''-DM 1'',
     ''TR14'', ''+DM14'', ''-DM14'', ''+DI14'', ''-DI14'', ''DI 14 Diff'', ''DI 14 Sum'', ''DX'', ''ADX'']"

text \<open>
  Objects live in a store, a list of tables addressed by position; \<^verbatim>\<open>copy\<close> and
  \<^verbatim>\<open>rename\<close> allocate a new table at the end, and the assignments of the source update
  the table that \<^verbatim>\<open>df\<close> then names.
\<close>

type_synonym ref = nat

type_synonym store = "frame list"

definition alloc :: "frame \<Rightarrow> store \<Rightarrow> ref \<times> store" where
  "alloc f h = (length h, h @ [f])"

text \<open>
  \<^verbatim>\<open>calculate_adx(input_df)\<close>, on the store and the address of the argument; the result is
  the exception raised or the table returned, and the store after the call.  The rows of
  a table are addressed by position (the index of a table read from a file).  A table
  with two columns of one name after the renaming is outside the model, as is an
  address that the store does not hold.

  The definition is in two parts.  \<open>compute_indicators\<close> is the function from
  \<^verbatim>\<open>df[['Open', 'High', 'Low', 'Close']]\<close> to the end, on the table that \<^verbatim>\<open>df\<close> names after
  the renaming; selecting the four columns raises \<^verbatim>\<open>KeyError\<close> when one is absent, and
  \<^verbatim>\<open>df.index[0]\<close> raises \<^verbatim>\<open>IndexError\<close> when the table has no row.
\<close>

definition compute_indicators :: "pandas \<Rightarrow> store \<Rightarrow> ref \<Rightarrow> string option \<Rightarrow> (error + frame) \<times> store" where
  "compute_indicators L h2 df date_col =
     (case (map_of (h2 ! df) ''Open'', map_of (h2 ! df) ''High'',
            map_of (h2 ! df) ''Low'', map_of (h2 ! df) ''Close'') of
        (Some o_col, Some h_col, Some l_col, Some c_col) \<Rightarrow>
          if \<not> distinct (map fst (h2 ! df)) then (Inl Unmodelled, h2)
          else
            let opn = to_numeric L o_col;
                high = to_numeric L h_col;
                low = to_numeric L l_col;
                close = to_numeric L c_col;
                h3 = h2[df := assign_all (prepare_assignments opn high low close) (h2 ! df)]
            in if o_col = [] then (Inl IndexError, h3)
               else
                 let h4 = h3[df := assign_all (indicator_assignments high low close) (h3 ! df)];
                     h5 = h4[df := round_numeric (h4 ! df)];
                     final = (case date_col of None \<Rightarrow> [] | Some d \<Rightarrow> [d]) @ final_columns;
                     h6 = (case date_col of
                             None \<Rightarrow> h5
                           | Some d \<Rightarrow>
                               h5[df := AList.update d
                                          (map (astype_str L) (the (map_of (h5 ! df) d))) (h5 ! df)])
                 in (Inr (select_present final (h6 ! df)), h6)
      | _ \<Rightarrow> (Inl KeyError, h2))"

definition calculate_adx :: "pandas \<Rightarrow> store \<Rightarrow> ref \<Rightarrow> (error + frame) \<times> store" where
  "calculate_adx L h input_df =
     (if length h \<le> input_df then (Inl Unmodelled, h)
      else
        let (df, h1) = alloc (h ! input_df) h;
            ohlc_map = detect_ohlc_columns (h1 ! df)
        in if None \<in> snd ` set ohlc_map then (Inl (ValueError (missing_message ohlc_map)), h1)
        else
          (case map fst (h1 ! df) of
             [] \<Rightarrow> (Inl IndexError, h1)
           | first_col # _ \<Rightarrow>
               let date_col = (if Some first_col \<in> snd ` set ohlc_map then None else Some first_col);
                   (df, h2) = alloc (rename_columns
                                 (map (\<lambda>(key, new). (the (the (map_of ohlc_map key)), new))
                                    [(''open'', ''Open''), (''high'', ''High''), (''low'', ''Low''), (''close'', ''Close'')])
                                 (h1 ! df)) h1
               in compute_indicators L h2 df date_col))"

section \<open>Facts about the float operations\<close>

lemma isnan_iff [simp]: "isnan x \<longleftrightarrow> x = NaN"
  by (cases x) simp_all

lemma fadd_NaN_right [simp]: "fadd x NaN = NaN"
  by (cases x) simp_all

lemma fsub_NaN_left [simp]: "fsub NaN y = NaN"
  by (simp add: fsub_def)

lemma fsub_NaN_right [simp]: "fsub x NaN = NaN"
  by (simp add: fsub_def)

lemma fmul_NaN_right [simp]: "fmul x NaN = NaN"
  by (cases x) simp_all

lemma fdiv_NaN_right [simp]: "fdiv x NaN = NaN"
  by (cases x) simp_all

lemma fsub_Fin [simp]: "fsub (Fin a) (Fin b) = Fin (a - b)"
  by (simp add: fsub_def)

lemma fgt_asym: "fgt x y \<Longrightarrow> \<not> fgt y x"
  by (cases x; cases y) simp_all

lemma foldl_fadd_Fin:
  "\<forall>x \<in> set xs. x = Fin r \<Longrightarrow> foldl fadd (Fin a) xs = Fin (a + real (length xs) * r)"
  by (induction xs arbitrary: a) (simp_all add: algebra_simps)

lemma nansum_const:
  assumes "\<forall>x \<in> set xs. x = Fin r"
  shows "nansum xs = Fin (real (length xs) * r)"
proof -
  from assms have "map (\<lambda>x. if isnan x then Fin 0 else x) xs = xs"
    by (induction xs) auto
  with assms show ?thesis by (simp add: nansum_def foldl_fadd_Fin)
qed

section \<open>Facts about the series operations\<close>

lemma length_shift1 [simp]: "length (shift1 s) = length s"
  by (simp add: shift1_def)

lemma shift1_nth: "0 < i \<Longrightarrow> i < length s \<Longrightarrow> shift1 s ! i = s ! (i - 1)"
  by (auto simp: shift1_def nth_Cons' nth_butlast)

subsection \<open>The loop of Wilder's summation\<close>

lemma wilder_step_length [simp]: "length (wilder_step n arr i res) = length res"
  by (simp add: wilder_step_def Let_def)

lemma wilder_fold_length [simp]: "length (fold (wilder_step n arr) is res) = length res"
  by (induction "is" arbitrary: res) simp_all

lemma wilder_step_other: "j \<noteq> i \<Longrightarrow> wilder_step n arr i res ! j = res ! j"
  by (simp add: wilder_step_def Let_def)

lemma wilder_step_at:
  "i < length res \<Longrightarrow> wilder_step n arr i res ! i =
     fadd (fsub (res ! (i - 1)) (fdiv (res ! (i - 1)) (Fin (real n)))) (arr ! i)"
  by (simp add: wilder_step_def Let_def)

text \<open>The loop over \<open>[a..<k]\<close> leaves every cell outside that range as it was.\<close>

lemma wilder_fold_other:
  "j < a \<or> k \<le> j \<Longrightarrow> fold (wilder_step n arr) [a..<k] res ! j = res ! j"
proof (induction k)
  case 0
  then show ?case by simp
next
  case (Suc k)
  show ?case
  proof (cases "a \<le> k")
    case True
    with Suc show ?thesis by (auto simp: wilder_step_other)
  next
    case False
    then show ?thesis by simp
  qed
qed

text \<open>Inside the range, each cell is computed from the cell before it in the final result.\<close>

lemma wilder_fold_at:
  "0 < a \<Longrightarrow> a \<le> j \<Longrightarrow> j < k \<Longrightarrow> k \<le> length res \<Longrightarrow>
   fold (wilder_step n arr) [a..<k] res ! j =
     fadd (fsub (fold (wilder_step n arr) [a..<k] res ! (j - 1))
                (fdiv (fold (wilder_step n arr) [a..<k] res ! (j - 1)) (Fin (real n)))) (arr ! j)"
proof (induction k)
  case 0
  then show ?case by simp
next
  case (Suc k)
  from Suc.prems have ak: "a \<le> k" by simp
  let ?r = "fold (wilder_step n arr) [a..<k] res"
  have unf: "fold (wilder_step n arr) [a..<Suc k] res = wilder_step n arr k ?r"
    using ak by simp
  show ?case
  proof (cases "j = k")
    case True
    have "k - 1 \<noteq> k" using Suc.prems True by simp
    then show ?thesis
      using Suc.prems True unf by (simp add: wilder_step_at wilder_step_other)
  next
    case False
    with Suc.prems have jk: "j < k" by simp
    have j1: "j - 1 \<noteq> k" using jk by simp
    have "k \<le> length res" using Suc.prems by simp
    from Suc.IH [OF Suc.prems(1) Suc.prems(2) jk this] show ?thesis
      using False j1 unf by (simp add: wilder_step_other)
  qed
qed

lemma wilder_length [simp]: "length (wilder_sum_excel_style series n) = length series"
  by (simp add: wilder_sum_excel_style_def Let_def)

lemma wilder_below:
  "i < n \<Longrightarrow> i < length series \<Longrightarrow> wilder_sum_excel_style series n ! i = NaN"
  by (simp add: wilder_sum_excel_style_def Let_def wilder_fold_other)

lemma wilder_short:
  "length series \<le> n \<Longrightarrow> i < length series \<Longrightarrow> wilder_sum_excel_style series n ! i = NaN"
  by (simp add: wilder_sum_excel_style_def Let_def)

lemma wilder_seed:
  "n < length series \<Longrightarrow> wilder_sum_excel_style series n ! n = nansum (take n (drop 1 series))"
  by (simp add: wilder_sum_excel_style_def Let_def wilder_fold_other)

lemma wilder_rec:
  "n < i \<Longrightarrow> i < length series \<Longrightarrow>
   wilder_sum_excel_style series n ! i =
     fadd (fsub (wilder_sum_excel_style series n ! (i - 1))
                (fdiv (wilder_sum_excel_style series n ! (i - 1)) (Fin (real n)))) (series ! i)"
  by (simp add: wilder_sum_excel_style_def Let_def wilder_fold_at)


subsection \<open>Numeric columns\<close>

lemma float_of_int64_defined [simp]: "float_of_int64 k \<noteq> NaN"
  by (simp add: float_of_int64_def)

lemma length_floats_TR1 [simp]:
  "length (floats (TR1 high low)) = min (length (floats high)) (length (floats low))"
  by (cases high; cases low) simp_all

lemma TR1_Int64_nth:
  "i < length hs \<Longrightarrow> i < length ls \<Longrightarrow>
   floats (TR1 (Int64 hs) (Int64 ls)) ! i = float_of_int64 (hs ! i - ls ! i)"
  by simp

lemma TR1_Float64_nth:
  "high = Float64 h \<or> low = Float64 l \<Longrightarrow> i < length (floats high) \<Longrightarrow> i < length (floats low) \<Longrightarrow>
   floats (TR1 high low) ! i = fsub (floats high ! i) (floats low ! i)"
  by (cases high; cases low) auto

lemma TR1_defined:
  assumes "i < length (floats high)" "i < length (floats low)"
    and "floats high ! i = Fin a" "floats low ! i = Fin b"
  shows "\<exists>d. floats (TR1 high low) ! i = Fin d"
  using assms by (cases high; cases low) (auto simp: float_of_int64_def)

lemma TR1_NaN:
  assumes "i < length (floats high)" "i < length (floats low)"
    and "floats high ! i = NaN \<or> floats low ! i = NaN"
  shows "floats (TR1 high low) ! i = NaN"
  using assms by (cases high; cases low) auto

lemma those_None: "None \<in> set xs \<Longrightarrow> those xs = None"
  by (induction xs) (auto split: option.splits)

lemma to_numeric_Txt:
  assumes "i < length col" "col ! i = Txt s" "text_to_number L s = None"
  shows "floats (to_numeric L col) ! i = NaN"
proof -
  let ?ns = "map (read_cell L) col"
  let ?ks = "map (\<lambda>n. case n of Inl k \<Rightarrow> Some k | Inr v \<Rightarrow> None) ?ns"
  have r: "read_cell L (col ! i) = Inr NaN" using assms(2,3) by simp
  then have "?ks ! i = None" using assms(1) by simp
  moreover have "i < length ?ks" using assms(1) by simp
  ultimately have "None \<in> set ?ks" by (metis nth_mem)
  then have "those ?ks = None" by (rule those_None)
  then have "to_numeric L col = Float64 (map (\<lambda>n. case n of Inl k \<Rightarrow> float_of_int64 k | Inr v \<Rightarrow> v) ?ns)"
    by (simp add: to_numeric_def Let_def)
  then show ?thesis using assms(1) r by simp
qed

subsection \<open>True range and directional movement, row by row\<close>

lemma row_max_Fin3: "row_max [Fin a, Fin b, Fin c] = Fin (max (max a b) c)"
  by (simp add: row_max_def fmax2_def max_def)

lemma fmax2_NaN_iff: "y \<noteq> NaN \<Longrightarrow> fmax2 x y = NaN \<longleftrightarrow> x = NaN"
  by (cases x; cases y) (simp_all add: fmax2_def)

lemma row_max_NaN_iff: "row_max [a, b, c] = NaN \<longleftrightarrow> a = NaN \<and> b = NaN \<and> c = NaN"
  by (cases a; cases b; cases c) (simp_all add: row_max_def fmax2_def)

lemma length_TR_max [simp]:
  "length (TR_max high low close) =
     min (length (floats high)) (min (length (floats low)) (length (floats close)))"
  by (simp add: TR_max_def TR2_def TR3_def Prev_Close_def)

lemma length_TR [simp]:
  "length (TR high low close) =
     min (length (floats high)) (min (length (floats low)) (length (floats close)))"
  by (simp add: TR_def)

lemma TR2_nth:
  "i < length (floats high) \<Longrightarrow> i < length (floats close) \<Longrightarrow>
   TR2 high close ! i = fabs (fsub (floats high ! i) (Prev_Close close ! i))"
  by (simp add: TR2_def Prev_Close_def)

lemma TR3_nth:
  "i < length (floats low) \<Longrightarrow> i < length (floats close) \<Longrightarrow>
   TR3 low close ! i = fabs (fsub (floats low ! i) (Prev_Close close ! i))"
  by (simp add: TR3_def Prev_Close_def)

lemma TR_max_nth:
  "i < length (floats high) \<Longrightarrow> i < length (floats low) \<Longrightarrow> i < length (floats close) \<Longrightarrow>
   TR_max high low close ! i =
     row_max [floats (TR1 high low) ! i, TR2 high close ! i, TR3 low close ! i]"
  by (simp add: TR_max_def TR2_def TR3_def Prev_Close_def)

lemma TR_0:
  "floats high \<noteq> [] \<Longrightarrow> floats low \<noteq> [] \<Longrightarrow> floats close \<noteq> [] \<Longrightarrow> TR high low close ! 0 = NaN"
  by (simp add: TR_def)

lemma TR_nth_pos: "0 < i \<Longrightarrow> TR high low close ! i = TR_max high low close ! i"
  by (simp add: TR_def)

text \<open>
  With its three candidates defined, the true range of a row is their maximum; the first
  candidate is the difference as the program computed it.
\<close>

lemma TR_formula:
  assumes "0 < i" "i < length (floats high)" "i < length (floats low)" "i < length (floats close)"
    and "floats (TR1 high low) ! i = Fin d" "floats high ! i = Fin a" "floats low ! i = Fin b"
    and "floats close ! (i - 1) = Fin p"
  shows "TR high low close ! i = Fin (max d (max \<bar>a - p\<bar> \<bar>b - p\<bar>))"
  using assms
  by (simp add: TR_nth_pos TR_max_nth TR2_nth TR3_nth Prev_Close_def shift1_nth row_max_Fin3 max.assoc)

lemma length_UpMove [simp]: "length (UpMove high) = length (floats high)"
  by (simp add: UpMove_def Prev_High_def)

lemma length_DownMove [simp]: "length (DownMove low) = length (floats low)"
  by (simp add: DownMove_def Prev_Low_def)

lemma UpMove_nth:
  "i < length (floats high) \<Longrightarrow> UpMove high ! i = fsub (floats high ! i) (Prev_High high ! i)"
  by (simp add: UpMove_def Prev_High_def)

lemma DownMove_nth:
  "i < length (floats low) \<Longrightarrow> DownMove low ! i = fsub (Prev_Low low ! i) (floats low ! i)"
  by (simp add: DownMove_def Prev_Low_def)

lemma length_plus_DM_1 [simp]:
  "length (plus_DM_1 high low) = min (length (floats high)) (length (floats low))"
  by (simp add: plus_DM_1_def plus_DM_where_def)

lemma length_minus_DM_1 [simp]:
  "length (minus_DM_1 high low) = min (length (floats high)) (length (floats low))"
  by (simp add: minus_DM_1_def minus_DM_where_def)

lemma plus_DM_1_nth:
  "0 < i \<Longrightarrow> i < length (floats high) \<Longrightarrow> i < length (floats low) \<Longrightarrow>
   plus_DM_1 high low ! i =
     (if fgt (UpMove high ! i) (DownMove low ! i) \<and> fgt (UpMove high ! i) (Fin 0)
      then UpMove high ! i else Fin 0)"
  by (simp add: plus_DM_1_def plus_DM_where_def)

lemma minus_DM_1_nth:
  "0 < i \<Longrightarrow> i < length (floats high) \<Longrightarrow> i < length (floats low) \<Longrightarrow>
   minus_DM_1 high low ! i =
     (if fgt (DownMove low ! i) (UpMove high ! i) \<and> fgt (DownMove low ! i) (Fin 0)
      then DownMove low ! i else Fin 0)"
  by (simp add: minus_DM_1_def minus_DM_where_def)

lemma plus_DM_1_0: "floats high \<noteq> [] \<Longrightarrow> floats low \<noteq> [] \<Longrightarrow> plus_DM_1 high low ! 0 = NaN"
  by (simp add: plus_DM_1_def plus_DM_where_def)

lemma minus_DM_1_0: "floats high \<noteq> [] \<Longrightarrow> floats low \<noteq> [] \<Longrightarrow> minus_DM_1 high low ! 0 = NaN"
  by (simp add: minus_DM_1_def minus_DM_where_def)

subsection \<open>The loop of the ADX column\<close>

lemma adx_step_length [simp]: "length (adx_step dx i adx) = length adx"
  by (simp add: adx_step_def Let_def)

lemma adx_fold_length [simp]: "length (fold (adx_step dx) is adx) = length adx"
  by (induction "is" arbitrary: adx) simp_all

lemma adx_step_other: "j \<noteq> i \<Longrightarrow> adx_step dx i adx ! j = adx ! j"
  by (simp add: adx_step_def Let_def)

lemma adx_step_at:
  "i < length adx \<Longrightarrow> adx_step dx i adx ! i =
     fdiv (fadd (fmul (adx ! (i - 1)) (Fin (real (N - 1)))) (dx ! i)) (Fin (real N))"
  by (simp add: adx_step_def Let_def)

lemma adx_fold_other:
  "j < a \<or> k \<le> j \<Longrightarrow> fold (adx_step dx) [a..<k] adx ! j = adx ! j"
proof (induction k)
  case 0
  then show ?case by simp
next
  case (Suc k)
  show ?case
  proof (cases "a \<le> k")
    case True
    with Suc show ?thesis by (auto simp: adx_step_other)
  next
    case False
    then show ?thesis by simp
  qed
qed

lemma adx_fold_at:
  "0 < a \<Longrightarrow> a \<le> j \<Longrightarrow> j < k \<Longrightarrow> k \<le> length adx \<Longrightarrow>
   fold (adx_step dx) [a..<k] adx ! j =
     fdiv (fadd (fmul (fold (adx_step dx) [a..<k] adx ! (j - 1)) (Fin (real (N - 1)))) (dx ! j))
          (Fin (real N))"
proof (induction k)
  case 0
  then show ?case by simp
next
  case (Suc k)
  from Suc.prems have ak: "a \<le> k" by simp
  let ?r = "fold (adx_step dx) [a..<k] adx"
  have unf: "fold (adx_step dx) [a..<Suc k] adx = adx_step dx k ?r"
    using ak by simp
  show ?case
  proof (cases "j = k")
    case True
    have "k - 1 \<noteq> k" using Suc.prems True by simp
    then show ?thesis
      using Suc.prems True unf by (simp add: adx_step_at adx_step_other)
  next
    case False
    with Suc.prems have jk: "j < k" by simp
    have j1: "j - 1 \<noteq> k" using jk by simp
    have "k \<le> length adx" using Suc.prems by simp
    from Suc.IH [OF Suc.prems(1) Suc.prems(2) jk this] show ?thesis
      using False j1 unf by (simp add: adx_step_other)
  qed
qed

lemma adx_series_length [simp]: "length (adx_series dx) = length dx"
  by (simp add: adx_series_def Let_def)

lemma adx_series_below:
  "i < 2 * N - 1 \<Longrightarrow> i < length dx \<Longrightarrow> adx_series dx ! i = NaN"
  by (simp add: adx_series_def Let_def adx_fold_other)

lemma adx_series_seed:
  "2 * N - 1 < length dx \<Longrightarrow> adx_series dx ! (2 * N - 1) = mean_skipna (take N (drop N dx))"
  by (simp add: adx_series_def Let_def adx_fold_other N_def)

lemma adx_series_rec:
  "2 * N - 1 < i \<Longrightarrow> i < length dx \<Longrightarrow>
   adx_series dx ! i =
     fdiv (fadd (fmul (adx_series dx ! (i - 1)) (Fin (real (N - 1)))) (dx ! i)) (Fin (real N))"
  by (simp add: adx_series_def Let_def adx_fold_at)

lemma replace_inf_nan_Fin: "\<exists>rs. replace_inf_nan s = map Fin rs"
proof (induction s)
  case Nil
  then show ?case by (simp add: replace_inf_nan_def)
next
  case (Cons x s)
  then obtain rs where rs: "replace_inf_nan s = map Fin rs" by blast
  show ?case
  proof (cases x)
    case (Fin a)
    then have "replace_inf_nan (x # s) = map Fin (a # rs)"
      using rs by (simp add: replace_inf_nan_def)
    then show ?thesis by blast
  next
    case PInf
    then have "replace_inf_nan (x # s) = map Fin (0 # rs)"
      using rs by (simp add: replace_inf_nan_def)
    then show ?thesis by blast
  next
    case MInf
    then have "replace_inf_nan (x # s) = map Fin (0 # rs)"
      using rs by (simp add: replace_inf_nan_def)
    then show ?thesis by blast
  next
    case NaN
    then have "replace_inf_nan (x # s) = map Fin (0 # rs)"
      using rs by (simp add: replace_inf_nan_def)
    then show ?thesis by blast
  qed
qed

lemma foldl_fadd_map_Fin: "foldl fadd (Fin a) (map Fin rs) = Fin (a + sum_list rs)"
  by (induction rs arbitrary: a) (simp_all add: algebra_simps)

lemma mean_skipna_map_Fin:
  "rs \<noteq> [] \<Longrightarrow> mean_skipna (map Fin rs) = Fin (sum_list rs / real (length rs))"
proof -
  assume ne: "rs \<noteq> []"
  have "filter (\<lambda>x. \<not> isnan x) (map Fin rs) = map Fin rs"
    by (induction rs) simp_all
  then show ?thesis using ne by (simp add: mean_skipna_def Let_def foldl_fadd_map_Fin)
qed

lemma sum_list_const: "\<forall>x \<in> set xs. x = (v::real) \<Longrightarrow> sum_list xs = real (length xs) * v"
  by (induction xs) (simp_all add: algebra_simps)


subsection \<open>The smoothed columns and the indicators, row by row\<close>

lemma fgt_NaN_right [simp]: "\<not> fgt x NaN"
  by (cases x) simp_all

lemma fillna0_nth: "i < length s \<Longrightarrow> fillna0 s ! i = (if s ! i = NaN then Fin 0 else s ! i)"
  by (simp add: fillna0_def)

lemma length_fillna0 [simp]: "length (fillna0 s) = length s"
  by (simp add: fillna0_def)

lemma length_TR14 [simp]:
  "length (TR14 high low close) =
     min (length (floats high)) (min (length (floats low)) (length (floats close)))"
  by (simp add: TR14_def)

lemma length_plus_DM14 [simp]:
  "length (plus_DM14 high low) = min (length (floats high)) (length (floats low))"
  by (simp add: plus_DM14_def)

lemma length_minus_DM14 [simp]:
  "length (minus_DM14 high low) = min (length (floats high)) (length (floats low))"
  by (simp add: minus_DM14_def)

lemma length_plus_DI14 [simp]:
  "length (plus_DI14 high low close) =
     min (length (floats high)) (min (length (floats low)) (length (floats close)))"
  by (simp add: plus_DI14_def)

lemma length_minus_DI14 [simp]:
  "length (minus_DI14 high low close) =
     min (length (floats high)) (min (length (floats low)) (length (floats close)))"
  by (simp add: minus_DI14_def)

lemma length_DI_14_Diff [simp]:
  "length (DI_14_Diff high low close) =
     min (length (floats high)) (min (length (floats low)) (length (floats close)))"
  by (simp add: DI_14_Diff_def)

lemma length_DI_14_Sum [simp]:
  "length (DI_14_Sum high low close) =
     min (length (floats high)) (min (length (floats low)) (length (floats close)))"
  by (simp add: DI_14_Sum_def)

lemma length_DX_ratio [simp]:
  "length (DX_ratio high low close) =
     min (length (floats high)) (min (length (floats low)) (length (floats close)))"
  by (simp add: DX_ratio_def)

lemma length_DX [simp]:
  "length (DX high low close) =
     min (length (floats high)) (min (length (floats low)) (length (floats close)))"
  by (simp add: DX_def replace_inf_nan_def)

lemma length_ADX [simp]:
  "length (ADX high low close) =
     min (length (floats high)) (min (length (floats low)) (length (floats close)))"
  by (simp add: ADX_def)

lemma plus_DI14_nth:
  "i < length (floats high) \<Longrightarrow> i < length (floats low) \<Longrightarrow> i < length (floats close) \<Longrightarrow>
   plus_DI14 high low close ! i =
     fmul (fdiv (plus_DM14 high low ! i) (TR14 high low close ! i)) (Fin 100)"
  by (simp add: plus_DI14_def)

lemma minus_DI14_nth:
  "i < length (floats high) \<Longrightarrow> i < length (floats low) \<Longrightarrow> i < length (floats close) \<Longrightarrow>
   minus_DI14 high low close ! i =
     fmul (fdiv (minus_DM14 high low ! i) (TR14 high low close ! i)) (Fin 100)"
  by (simp add: minus_DI14_def)

lemma DI_14_Diff_nth:
  "i < length (floats high) \<Longrightarrow> i < length (floats low) \<Longrightarrow> i < length (floats close) \<Longrightarrow>
   DI_14_Diff high low close ! i =
     fabs (fsub (plus_DI14 high low close ! i) (minus_DI14 high low close ! i))"
  by (simp add: DI_14_Diff_def)

lemma DI_14_Sum_nth:
  "i < length (floats high) \<Longrightarrow> i < length (floats low) \<Longrightarrow> i < length (floats close) \<Longrightarrow>
   DI_14_Sum high low close ! i =
     fadd (plus_DI14 high low close ! i) (minus_DI14 high low close ! i)"
  by (simp add: DI_14_Sum_def)

lemma DX_ratio_nth:
  "i < length (floats high) \<Longrightarrow> i < length (floats low) \<Longrightarrow> i < length (floats close) \<Longrightarrow>
   DX_ratio high low close ! i =
     fmul (fdiv (DI_14_Diff high low close ! i) (DI_14_Sum high low close ! i)) (Fin 100)"
  by (simp add: DX_ratio_def)

lemma DX_nth:
  "i < length (floats high) \<Longrightarrow> i < length (floats low) \<Longrightarrow> i < length (floats close) \<Longrightarrow>
   DX high low close ! i =
     (if DX_ratio high low close ! i = PInf \<or> DX_ratio high low close ! i = MInf \<or>
         DX_ratio high low close ! i = NaN
      then Fin 0 else DX_ratio high low close ! i)"
  by (simp add: DX_def replace_inf_nan_def)

lemma TR14_below:
  "i < N \<Longrightarrow> i < length (floats high) \<Longrightarrow> i < length (floats low) \<Longrightarrow> i < length (floats close) \<Longrightarrow>
   TR14 high low close ! i = NaN"
  by (simp add: TR14_def wilder_below)

lemma wilder_NaN_step:
  "n < i \<Longrightarrow> i < length series \<Longrightarrow> wilder_sum_excel_style series n ! (i - 1) = NaN \<Longrightarrow>
   wilder_sum_excel_style series n ! i = NaN"
  by (simp add: wilder_rec)

lemma ADX_NaN_step:
  "2 * N - 1 < i \<Longrightarrow> i < length (DX high low close) \<Longrightarrow> ADX high low close ! (i - 1) = NaN \<Longrightarrow>
   ADX high low close ! i = NaN"
  by (simp add: ADX_def adx_series_rec)

lemma round_cell_NaN_iff: "round_cell (Num v) = Num NaN \<longleftrightarrow> v = NaN"
  by (cases v) simp_all


lemma nansum_fillna0: "nansum (map (\<lambda>x. if isnan x then Fin 0 else x) xs) = nansum xs"
proof -
  have "map (\<lambda>x. if isnan x then Fin 0 else x) (map (\<lambda>x. if isnan x then Fin 0 else x) xs) =
        map (\<lambda>x. if isnan x then Fin 0 else x) xs"
    by (induction xs) simp_all
  then show ?thesis by (simp only: nansum_def)
qed

lemma wilder_fillna0_seed:
  assumes "n < length R"
  shows "wilder_sum_excel_style (fillna0 R) n ! n = nansum (take n (drop 1 R))"
proof -
  have "wilder_sum_excel_style (fillna0 R) n ! n = nansum (take n (drop 1 (fillna0 R)))"
    using assms by (simp add: wilder_seed)
  also have "take n (drop 1 (fillna0 R)) = map (\<lambda>x. if isnan x then Fin 0 else x) (take n (drop 1 R))"
    by (simp add: fillna0_def take_map drop_map)
  finally show ?thesis by (simp only: nansum_fillna0)
qed

lemma wilder_fillna0_rec:
  assumes "n < i" "i < length R"
  shows "wilder_sum_excel_style (fillna0 R) n ! i =
           fadd (fsub (wilder_sum_excel_style (fillna0 R) n ! (i - 1))
                      (fdiv (wilder_sum_excel_style (fillna0 R) n ! (i - 1)) (Fin (real n))))
                (if R ! i = NaN then Fin 0 else R ! i)"
  using assms wilder_rec [of n i "fillna0 R"] by (simp add: fillna0_nth)

subsection \<open>The computation as a whole\<close>

lemma none_in_values_iff:
  "None \<in> snd ` set m \<longleftrightarrow> map fst (filter (\<lambda>(k, v). v = None) m) \<noteq> []"
  by (induction m) (auto simp: image_iff)

lemma detect_keys: "map fst (detect_ohlc_columns df) = [''open'', ''high'', ''low'', ''close'']"
  by (simp add: detect_ohlc_columns_def candidates_def Let_def)

lemma calculate_adx_missing:
  "input_df < length h \<Longrightarrow> None \<in> snd ` set (detect_ohlc_columns (h ! input_df)) \<Longrightarrow>
   calculate_adx L h input_df =
     (Inl (ValueError (missing_message (detect_ohlc_columns (h ! input_df)))), h @ [h ! input_df])"
  by (simp add: calculate_adx_def alloc_def)

lemma compute_indicators_no_ValueError:
  "fst (compute_indicators L h df date_col) \<noteq> Inl (ValueError msg)"
  by (simp add: compute_indicators_def Let_def split: option.splits)

lemma calculate_adx_no_ValueError:
  "input_df < length h \<Longrightarrow> None \<notin> snd ` set (detect_ohlc_columns (h ! input_df)) \<Longrightarrow>
   fst (calculate_adx L h input_df) \<noteq> Inl (ValueError msg)"
  by (simp add: calculate_adx_def alloc_def Let_def compute_indicators_no_ValueError split: list.splits)

lemma compute_indicators_result_local:
  "df < length h \<Longrightarrow>
   fst (compute_indicators L h df date_col) = fst (compute_indicators L [h ! df] 0 date_col)"
  by (simp add: compute_indicators_def Let_def split: option.splits)

lemma compute_indicators_store_kept:
  "r \<noteq> df \<Longrightarrow> snd (compute_indicators L h df date_col) ! r = h ! r"
  by (simp add: compute_indicators_def Let_def split: option.splits)

lemma calculate_adx_unfold:
  "input_df < length h \<Longrightarrow>
   calculate_adx L h input_df =
     (let f = h ! input_df; ohlc_map = detect_ohlc_columns f
      in if None \<in> snd ` set ohlc_map then (Inl (ValueError (missing_message ohlc_map)), h @ [f])
         else
           (case map fst f of
              [] \<Rightarrow> (Inl IndexError, h @ [f])
            | first_col # _ \<Rightarrow>
                compute_indicators L
                  (h @ [f, rename_columns
                             (map (\<lambda>(key, new). (the (the (map_of ohlc_map key)), new))
                                [(''open'', ''Open''), (''high'', ''High''), (''low'', ''Low''), (''close'', ''Close'')])
                             f])
                  (Suc (length h))
                  (if Some first_col \<in> snd ` set ohlc_map then None else Some first_col)))"
  by (simp add: calculate_adx_def alloc_def Let_def split: list.splits)

lemma compute_after_alloc:
  "fst (compute_indicators L (h @ [f, g]) (Suc (length h)) d) = fst (compute_indicators L [g] 0 d)"
  using compute_indicators_result_local [of "Suc (length h)" "h @ [f, g]" L d]
  by (simp add: nth_append)

text \<open>The result of a call as a function of the input table alone.\<close>

lemma calculate_adx_result:
  "input_df < length h \<Longrightarrow>
   fst (calculate_adx L h input_df) =
     (let f = h ! input_df; ohlc_map = detect_ohlc_columns f
      in if None \<in> snd ` set ohlc_map then Inl (ValueError (missing_message ohlc_map))
         else
           (case map fst f of
              [] \<Rightarrow> Inl IndexError
            | first_col # _ \<Rightarrow>
                fst (compute_indicators L
                  [rename_columns
                     (map (\<lambda>(key, new). (the (the (map_of ohlc_map key)), new))
                        [(''open'', ''Open''), (''high'', ''High''), (''low'', ''Low''), (''close'', ''Close'')])
                     f]
                  0
                  (if Some first_col \<in> snd ` set ohlc_map then None else Some first_col))))"
  by (simp add: calculate_adx_unfold Let_def compute_after_alloc split: list.splits)

lemma calculate_adx_store:
  "input_df < length h \<Longrightarrow> r < length h \<Longrightarrow> snd (calculate_adx L h input_df) ! r = h ! r"
  by (simp add: calculate_adx_unfold Let_def compute_indicators_store_kept nth_append split: list.splits)

section \<open>The claims\<close>

subsection \<open>C1: where and with what the smoothed series starts\<close>

text \<open>
  C1 as the specification states it: the smoothed series of a raw series of at least
  \<open>N + 1\<close> rows has its first value at index \<open>N - 1 = 13\<close>, the sum of the raw cells
  \<open>0..13\<close>, and for identical raw values \<open>r\<close> the cell 14 is \<open>13 * r\<close>.  The program does
  otherwise: on fifteen cells of value 1, cell 13 of the smoothed series is undefined
  although the raw cells \<open>0..13\<close> add up to 14, and cell 14 is 14, not 13.
\<close>

theorem wilder_seed_counterexample:
  "wilder_sum_excel_style (replicate 15 (Fin 1)) 14 ! 13 \<noteq> nansum (take 14 (replicate 15 (Fin 1))) \<and>
   wilder_sum_excel_style (replicate 15 (Fin 1)) 14 ! 13 = NaN \<and>
   wilder_sum_excel_style (replicate 15 (Fin 1)) 14 ! 14 \<noteq> Fin (13 * 1)"
  by code_simp

text \<open>
  C1 as amended: for a raw series \<open>R\<close> of more than \<open>N = 14\<close> rows, every cell of the
  smoothed series below index \<open>N\<close> is undefined and the cell at index \<open>N\<close> is the sum of
  the raw cells \<open>1..N\<close> (an undefined raw cell counting as 0; cell 0 is not part of the
  sum).  In particular, if the raw cells \<open>1..15\<close> all have the value \<open>r\<close>, the smoothed
  cells 14 and 15 are both \<open>14 * r\<close>.
\<close>

theorem wilder_seed_at_N:
  assumes "N < length R"
  shows "(\<forall>i<N. wilder_sum_excel_style R N ! i = NaN) \<and>
         wilder_sum_excel_style R N ! N = nansum (take N (drop 1 R)) \<and>
         ((\<forall>i. 1 \<le> i \<and> i \<le> N + 1 \<longrightarrow> R ! i = Fin r) \<and> N + 1 < length R \<longrightarrow>
            wilder_sum_excel_style R N ! N = Fin (14 * r) \<and>
            wilder_sum_excel_style R N ! (N + 1) = Fin (14 * r))"
proof (intro conjI allI impI)
  fix i assume "i < N"
  with assms show "wilder_sum_excel_style R N ! i = NaN" by (simp add: wilder_below)
next
  show "wilder_sum_excel_style R N ! N = nansum (take N (drop 1 R))"
    using assms by (rule wilder_seed)
next
  assume h: "(\<forall>i. 1 \<le> i \<and> i \<le> N + 1 \<longrightarrow> R ! i = Fin r) \<and> N + 1 < length R"
  have "\<forall>x \<in> set (take N (drop 1 R)). x = Fin r"
  proof
    fix x assume "x \<in> set (take N (drop 1 R))"
    then obtain k where k: "k < length (take N (drop 1 R))" "x = take N (drop 1 R) ! k"
      by (auto simp: in_set_conv_nth)
    then have "k < N" "1 + k < length R" by auto
    then have "x = R ! (1 + k)" using k by simp
    with h \<open>k < N\<close> show "x = Fin r" by simp
  qed
  moreover have "length (take N (drop 1 R)) = 14" using assms by (simp add: N_def)
  ultimately have "nansum (take N (drop 1 R)) = Fin (14 * r)"
    using nansum_const [of "take N (drop 1 R)" r] by simp
  then show s: "wilder_sum_excel_style R N ! N = Fin (14 * r)"
    using assms by (simp add: wilder_seed)
  have "R ! (N + 1) = Fin r" using h by simp
  then show "wilder_sum_excel_style R N ! (N + 1) = Fin (14 * r)"
    using h s wilder_rec [of N "N + 1" R] by (simp add: N_def)
qed

theorem wilder_seed_at_N_witness:
  "N < length (NaN # replicate 15 (Fin 2)) \<and>
   wilder_sum_excel_style (NaN # replicate 15 (Fin 2)) N ! 13 = NaN \<and>
   wilder_sum_excel_style (NaN # replicate 15 (Fin 2)) N ! N = Fin (14 * 2) \<and>
   wilder_sum_excel_style (NaN # replicate 15 (Fin 2)) N ! (N + 1) = Fin (14 * 2)"
proof -
  let ?R = "NaN # replicate 15 (Fin 2)"
  have a: "N < length ?R" by (simp add: N_def)
  have b: "(\<forall>i. 1 \<le> i \<and> i \<le> N + 1 \<longrightarrow> ?R ! i = Fin 2) \<and> N + 1 < length ?R"
    by (auto simp: N_def nth_Cons')
  note t = wilder_seed_at_N [OF a, of 2]
  from t have "\<forall>i<N. wilder_sum_excel_style ?R N ! i = NaN" by blast
  then have c: "wilder_sum_excel_style ?R N ! 13 = NaN" by (simp add: N_def)
  from t b have "wilder_sum_excel_style ?R N ! N = Fin (14 * 2) \<and>
                 wilder_sum_excel_style ?R N ! (N + 1) = Fin (14 * 2)" by blast
  with a c show ?thesis by blast
qed

subsection \<open>C2: the recursion of the smoothed series\<close>

text \<open>
  C2: for a raw series \<open>R\<close> and its smoothed series \<open>S\<close> with \<open>N = 14\<close>, at every index
  \<open>i\<close> after an index at which \<open>S\<close> is defined (so after the first such index),
  \<open>S[i] = S[i-1] - S[i-1] / N + R[i]\<close>.
\<close>

theorem wilder_recursion:
  assumes "i < length R" and "j < i" and "wilder_sum_excel_style R N ! j \<noteq> NaN"
  shows "wilder_sum_excel_style R N ! i =
           fadd (fsub (wilder_sum_excel_style R N ! (i - 1))
                      (fdiv (wilder_sum_excel_style R N ! (i - 1)) (Fin (real N)))) (R ! i)"
proof -
  have "N \<le> j"
  proof (rule ccontr)
    assume "\<not> N \<le> j"
    then have "wilder_sum_excel_style R N ! j = NaN"
      using assms(1,2) by (simp add: wilder_below)
    with assms(3) show False by simp
  qed
  with assms(2) have "N < i" by simp
  then show ?thesis using assms(1) by (rule wilder_rec)
qed

theorem wilder_recursion_witness:
  "15 < length (Fin 0 # replicate 15 (Fin 1)) \<and> (14::nat) < 15 \<and>
   wilder_sum_excel_style (Fin 0 # replicate 15 (Fin 1)) N ! 14 \<noteq> NaN \<and>
   wilder_sum_excel_style (Fin 0 # replicate 15 (Fin 1)) N ! 15 =
     fadd (fsub (wilder_sum_excel_style (Fin 0 # replicate 15 (Fin 1)) N ! (15 - 1))
                (fdiv (wilder_sum_excel_style (Fin 0 # replicate 15 (Fin 1)) N ! (15 - 1)) (Fin (real N))))
          ((Fin 0 # replicate 15 (Fin 1)) ! 15)"
proof -
  have a: "wilder_sum_excel_style (Fin 0 # replicate 15 (Fin 1)) N ! 14 \<noteq> NaN"
    by code_simp
  have b: "15 < length (Fin 0 # replicate 15 (Fin 1))" by simp
  have c: "(14::nat) < 15" by simp
  from wilder_recursion [OF b c a] a b c show ?thesis by blast
qed

subsection \<open>C7: at most one directional movement per row\<close>

text \<open>
  C7: in every row \<open>i > 0\<close>, at most one of \<^verbatim>\<open>+DM 1\<close> and \<^verbatim>\<open>-DM 1\<close> is nonzero, and both
  are 0 when the up move equals the down move.  It holds whatever the cells are.
\<close>

theorem dm_exclusive:
  assumes "0 < i" "i < length (floats high)" "i < length (floats low)"
  shows "(plus_DM_1 high low ! i = Fin 0 \<or> minus_DM_1 high low ! i = Fin 0) \<and>
         (UpMove high ! i = DownMove low ! i \<longrightarrow>
            plus_DM_1 high low ! i = Fin 0 \<and> minus_DM_1 high low ! i = Fin 0)"
  using assms by (auto simp: plus_DM_1_nth minus_DM_1_nth dest: fgt_asym)

theorem dm_exclusive_witness:
  "(0::nat) < 1 \<and> 1 < length (floats (Float64 [Fin 1, Fin 3])) \<and>
   1 < length (floats (Float64 [Fin 1, Fin 2])) \<and>
   plus_DM_1 (Float64 [Fin 1, Fin 3]) (Float64 [Fin 1, Fin 2]) ! 1 = Fin 2 \<and>
   minus_DM_1 (Float64 [Fin 1, Fin 3]) (Float64 [Fin 1, Fin 2]) ! 1 = Fin 0"
proof -
  let ?h = "Float64 [Fin 1, Fin 3]" and ?l = "Float64 [Fin 1, Fin 2]"
  have p: "plus_DM_1 ?h ?l ! 1 = Fin 2" by code_simp
  have "plus_DM_1 ?h ?l ! 1 = Fin 0 \<or> minus_DM_1 ?h ?l ! 1 = Fin 0"
    using dm_exclusive [of 1 ?h ?l] by simp
  with p show ?thesis by simp
qed

subsection \<open>C9: the true range of a row\<close>

text \<open>
  C9 states that in a row \<open>i > 0\<close> with defined \<open>High[i]\<close>, \<open>Low[i]\<close> and \<open>Close[i-1]\<close>,
  \<open>TR[i] = max (High[i] - Low[i]) \<bar>High[i] - Close[i-1]\<bar> \<bar>Low[i] - Close[i-1]\<bar>\<close>, so
  that \<open>TR[i] \<ge> High[i] - Low[i]\<close>.  The program computes the first candidate on the
  columns as \<^verbatim>\<open>pd.to_numeric\<close> left them: on two integer columns the difference is a
  64-bit integer and wraps around, whereas the other two candidates are computed on
  floats, the shifted \<^verbatim>\<open>Close\<close> being a float column.  On a table of two rows of integer
  cells with \<open>High = 2\<^sup>6\<^sup>2\<close> and \<open>Low = - 2\<^sup>6\<^sup>2\<close> in row 1 and \<open>Close = 0\<close>, the first
  candidate is \<open>- 2\<^sup>6\<^sup>3\<close> and \<open>TR[1]\<close> is \<open>2\<^sup>6\<^sup>2\<close>, less than
  \<open>High[1] - Low[1] = 2\<^sup>6\<^sup>3\<close>.
\<close>

theorem tr1_wraps_on_integer_columns:
  "(let L = \<lparr>text_to_number = (\<lambda>s. None), float_to_text = (\<lambda>v. []), int_to_text = (\<lambda>k. [])\<rparr>;
        high = to_numeric L [Intg 0, Intg (2 ^ 62)];
        low = to_numeric L [Intg 0, Intg (- (2 ^ 62))];
        close = to_numeric L [Intg 0, Intg 0]
    in high = Int64 [0, 2 ^ 62] \<and> low = Int64 [0, - (2 ^ 62)] \<and>
       floats high ! 1 = Fin (2 ^ 62) \<and> floats low ! 1 = Fin (- (2 ^ 62)) \<and>
       floats close ! 0 = Fin 0 \<and>
       floats (TR1 high low) ! 1 = Fin (- (2 ^ 63)) \<and>
       TR high low close ! 1 = Fin (2 ^ 62) \<and>
       TR high low close ! 1 \<noteq> Fin (max (2 ^ 62 - (- (2 ^ 62))) (max \<bar>2 ^ 62 - 0\<bar> \<bar>- (2 ^ 62) - 0\<bar>)))"
  by code_simp

subsection \<open>C3: the ADX column\<close>

text \<open>
  C3: in a table long enough to reach index \<open>2N - 1 = 27\<close>, the DX column holds only
  finite values \<open>dx\<close>; ADX is undefined below index 27; \<open>ADX[27]\<close> is the arithmetic
  mean of \<open>dx[14..27]\<close>; for every \<open>i > 27\<close>, \<open>ADX[i] = (ADX[i-1] * 13 + dx[i]) / 14\<close>;
  and if \<open>dx\<close> is a constant \<open>v\<close> on \<open>14..27\<close> then \<open>ADX[27] = v\<close> and
  \<open>ADX[28] = (v * 13 + dx[28]) / 14\<close>.
\<close>

theorem adx_seed_and_recursion:
  assumes "27 < length (DX high low close)"
  shows "\<exists>dx. DX high low close = map Fin dx \<and>
           (\<forall>i<27. ADX high low close ! i = NaN) \<and>
           ADX high low close ! 27 = Fin (sum_list (take 14 (drop 14 dx)) / 14) \<and>
           (\<forall>i. 27 < i \<and> i < length dx \<longrightarrow>
              ADX high low close ! i =
                fdiv (fadd (fmul (ADX high low close ! (i - 1)) (Fin 13)) (Fin (dx ! i))) (Fin 14)) \<and>
           (\<forall>v. (\<forall>i. 14 \<le> i \<and> i \<le> 27 \<longrightarrow> dx ! i = v) \<longrightarrow>
              ADX high low close ! 27 = Fin v \<and>
              (28 < length dx \<longrightarrow> ADX high low close ! 28 = Fin ((v * 13 + dx ! 28) / 14)))"
proof -
  obtain dx where dx: "DX high low close = map Fin dx"
    unfolding DX_def using replace_inf_nan_Fin by blast
  from assms dx have len: "27 < length dx" by simp
  have below: "\<forall>i<27. ADX high low close ! i = NaN"
    using len by (simp add: ADX_def dx adx_series_below N_def)
  have "take 14 (drop 14 dx) \<noteq> []" using len by auto
  moreover have "length (take 14 (drop 14 dx)) = 14" using len by simp
  ultimately have m: "mean_skipna (map Fin (take 14 (drop 14 dx))) = Fin (sum_list (take 14 (drop 14 dx)) / 14)"
    using mean_skipna_map_Fin [of "take 14 (drop 14 dx)"] by simp
  have seed: "ADX high low close ! 27 = Fin (sum_list (take 14 (drop 14 dx)) / 14)"
    using len adx_series_seed [of "map Fin dx"] m
    by (simp add: ADX_def dx N_def take_map drop_map)
  have rec: "\<forall>i. 27 < i \<and> i < length dx \<longrightarrow>
      ADX high low close ! i =
        fdiv (fadd (fmul (ADX high low close ! (i - 1)) (Fin 13)) (Fin (dx ! i))) (Fin 14)"
    using adx_series_rec [of _ "map Fin dx"] by (simp add: ADX_def dx N_def)
  have const: "\<forall>v. (\<forall>i. 14 \<le> i \<and> i \<le> 27 \<longrightarrow> dx ! i = v) \<longrightarrow>
      ADX high low close ! 27 = Fin v \<and>
      (28 < length dx \<longrightarrow> ADX high low close ! 28 = Fin ((v * 13 + dx ! 28) / 14))"
  proof (intro allI impI)
    fix v assume c: "\<forall>i. 14 \<le> i \<and> i \<le> 27 \<longrightarrow> dx ! i = v"
    have "\<forall>x \<in> set (take 14 (drop 14 dx)). x = v"
    proof
      fix x assume "x \<in> set (take 14 (drop 14 dx))"
      then obtain k where k: "k < length (take 14 (drop 14 dx))" "x = take 14 (drop 14 dx) ! k"
        by (auto simp: in_set_conv_nth)
      then have "k < 14" "14 + k < length dx" by auto
      then have "x = dx ! (14 + k)" using k by simp
      with c \<open>k < 14\<close> show "x = v" by simp
    qed
    then have "sum_list (take 14 (drop 14 dx)) = 14 * v"
      using sum_list_const [of "take 14 (drop 14 dx)" v] len by simp
    with seed have s: "ADX high low close ! 27 = Fin v" by simp
    have "28 < length dx \<longrightarrow> ADX high low close ! 28 = Fin ((v * 13 + dx ! 28) / 14)"
    proof
      assume "28 < length dx"
      with rec have "ADX high low close ! 28 =
          fdiv (fadd (fmul (ADX high low close ! (28 - 1)) (Fin 13)) (Fin (dx ! 28))) (Fin 14)"
        by simp
      with s show "ADX high low close ! 28 = Fin ((v * 13 + dx ! 28) / 14)" by simp
    qed
    with s show "ADX high low close ! 27 = Fin v \<and>
      (28 < length dx \<longrightarrow> ADX high low close ! 28 = Fin ((v * 13 + dx ! 28) / 14))" by simp
  qed
  from dx below seed rec const show ?thesis by blast
qed


theorem adx_seed_and_recursion_witness:
  "27 < length (DX (Float64 (replicate 29 (Fin 1))) (Float64 (replicate 29 (Fin 1)))
                   (Float64 (replicate 29 (Fin 1)))) \<and>
   ADX (Float64 (replicate 29 (Fin 1))) (Float64 (replicate 29 (Fin 1)))
       (Float64 (replicate 29 (Fin 1))) ! 26 = NaN"
proof -
  let ?s = "Float64 (replicate 29 (Fin 1))"
  have a: "27 < length (DX ?s ?s ?s)" by simp
  from adx_seed_and_recursion [OF a] have "\<forall>i<27. ADX ?s ?s ?s ! i = NaN" by blast
  then have "ADX ?s ?s ?s ! 26 = NaN" by simp
  with a show ?thesis by blast
qed

subsection \<open>C4: the directional indicators where the smoothed true range is zero\<close>

text \<open>
  C4 asks for \<^verbatim>\<open>+DI14\<close> and \<^verbatim>\<open>-DI14\<close> to be 0 where \<^verbatim>\<open>TR14\<close> is 0.  The program
  divides without a guard: on fifteen rows of one constant price, \<^verbatim>\<open>TR14\<close> at index 14
  is 0 and both indicators there are \<open>0 / 0\<close>, undefined.
\<close>

theorem di_undefined_at_zero_tr14:
  "TR14 (Float64 (replicate 15 (Fin 1))) (Float64 (replicate 15 (Fin 1)))
        (Float64 (replicate 15 (Fin 1))) ! 14 = Fin 0 \<and>
   plus_DI14 (Float64 (replicate 15 (Fin 1))) (Float64 (replicate 15 (Fin 1)))
        (Float64 (replicate 15 (Fin 1))) ! 14 = NaN \<and>
   minus_DI14 (Float64 (replicate 15 (Fin 1))) (Float64 (replicate 15 (Fin 1)))
        (Float64 (replicate 15 (Fin 1))) ! 14 = NaN"
  by code_simp

subsection \<open>C8: the first row of TR and of the directional movements\<close>

text \<open>
  C8: in a table with at least one row, row 0 of \<^verbatim>\<open>TR\<close>, \<^verbatim>\<open>+DM 1\<close> and \<^verbatim>\<open>-DM 1\<close> is
  undefined whatever the row holds, and stays so in the rounded output; every later row
  has a defined TR when \<open>High[i]\<close>, \<open>Low[i]\<close> and \<open>Close[i-1]\<close> are defined, and defined
  directional movements when \<open>High\<close> and \<open>Low\<close> of the row and of the row before are.
  The columns are those of one table, integer or float.
\<close>

theorem first_row_blank:
  assumes "floats high \<noteq> []" "length (floats low) = length (floats high)"
    and "length (floats close) = length (floats high)"
  shows "round_cell (Num (TR high low close ! 0)) = Num NaN \<and>
         round_cell (Num (plus_DM_1 high low ! 0)) = Num NaN \<and>
         round_cell (Num (minus_DM_1 high low ! 0)) = Num NaN \<and>
         (\<forall>i. 0 < i \<and> i < length (floats high) \<and>
              (\<exists>a b p. floats high ! i = Fin a \<and> floats low ! i = Fin b \<and>
                       floats close ! (i - 1) = Fin p) \<longrightarrow>
              (\<exists>t. TR high low close ! i = Fin t)) \<and>
         (\<forall>i. 0 < i \<and> i < length (floats high) \<and>
              (\<exists>a a' b b'. floats high ! i = Fin a \<and> floats high ! (i - 1) = Fin a' \<and>
                           floats low ! i = Fin b \<and> floats low ! (i - 1) = Fin b') \<longrightarrow>
              (\<exists>u d. plus_DM_1 high low ! i = Fin u \<and> minus_DM_1 high low ! i = Fin d))"
proof (intro conjI allI impI)
  from assms have ne: "floats low \<noteq> []" "floats close \<noteq> []" by auto
  show "round_cell (Num (TR high low close ! 0)) = Num NaN"
    using assms(1) ne by (simp add: TR_0)
  show "round_cell (Num (plus_DM_1 high low ! 0)) = Num NaN"
    using assms(1) ne by (simp add: plus_DM_1_0)
  show "round_cell (Num (minus_DM_1 high low ! 0)) = Num NaN"
    using assms(1) ne by (simp add: minus_DM_1_0)
next
  fix i
  assume h: "0 < i \<and> i < length (floats high) \<and>
    (\<exists>a b p. floats high ! i = Fin a \<and> floats low ! i = Fin b \<and> floats close ! (i - 1) = Fin p)"
  then obtain a b p where v: "floats high ! i = Fin a" "floats low ! i = Fin b"
      "floats close ! (i - 1) = Fin p"
    by blast
  from h assms have i: "0 < i" "i < length (floats high)" "i < length (floats low)"
      "i < length (floats close)" by simp_all
  from TR1_defined [OF i(2,3) v(1,2)] obtain d where d: "floats (TR1 high low) ! i = Fin d"
    by blast
  from TR_formula [OF i d v] show "\<exists>t. TR high low close ! i = Fin t" by blast
next
  fix i
  assume h: "0 < i \<and> i < length (floats high) \<and>
    (\<exists>a a' b b'. floats high ! i = Fin a \<and> floats high ! (i - 1) = Fin a' \<and>
                 floats low ! i = Fin b \<and> floats low ! (i - 1) = Fin b')"
  then obtain a a' b b' where v: "floats high ! i = Fin a" "floats high ! (i - 1) = Fin a'"
      "floats low ! i = Fin b" "floats low ! (i - 1) = Fin b'"
    by blast
  from h assms have i: "0 < i" "i < length (floats high)" "i < length (floats low)" by simp_all
  have "UpMove high ! i = Fin (a - a')"
    using i v by (simp add: UpMove_nth Prev_High_def shift1_nth)
  moreover have "DownMove low ! i = Fin (b' - b)"
    using i v by (simp add: DownMove_nth Prev_Low_def shift1_nth)
  ultimately show "\<exists>u d. plus_DM_1 high low ! i = Fin u \<and> minus_DM_1 high low ! i = Fin d"
    using i by (simp add: plus_DM_1_nth minus_DM_1_nth)
qed

theorem first_row_blank_witness:
  "floats (Float64 [Fin 5, Fin 7]) \<noteq> [] \<and>
   TR (Float64 [Fin 5, Fin 7]) (Float64 [Fin 4, Fin 6]) (Float64 [Fin 4, Fin 9]) ! 0 = NaN \<and>
   plus_DM_1 (Float64 [Fin 5, Fin 7]) (Float64 [Fin 4, Fin 6]) ! 0 = NaN \<and>
   minus_DM_1 (Float64 [Fin 5, Fin 7]) (Float64 [Fin 4, Fin 6]) ! 0 = NaN \<and>
   (\<exists>t. TR (Float64 [Fin 5, Fin 7]) (Float64 [Fin 4, Fin 6]) (Float64 [Fin 4, Fin 9]) ! 1 = Fin t)"
proof -
  let ?h = "Float64 [Fin 5, Fin 7]" and ?l = "Float64 [Fin 4, Fin 6]" and ?c = "Float64 [Fin 4, Fin 9]"
  have a: "floats ?h \<noteq> []" "length (floats ?l) = length (floats ?h)"
    "length (floats ?c) = length (floats ?h)" by simp_all
  note t = first_row_blank [OF a]
  from t have r: "round_cell (Num (TR ?h ?l ?c ! 0)) = Num NaN"
    "round_cell (Num (plus_DM_1 ?h ?l ! 0)) = Num NaN"
    "round_cell (Num (minus_DM_1 ?h ?l ! 0)) = Num NaN" by blast+
  have n: "\<And>x. round_cell (Num x) = Num NaN \<Longrightarrow> x = NaN"
  proof -
    fix x assume "round_cell (Num x) = Num NaN" then show "x = NaN" by (cases x) simp_all
  qed
  from t have "\<forall>i. 0 < i \<and> i < length (floats ?h) \<and>
      (\<exists>a b p. floats ?h ! i = Fin a \<and> floats ?l ! i = Fin b \<and> floats ?c ! (i - 1) = Fin p) \<longrightarrow>
      (\<exists>t. TR ?h ?l ?c ! i = Fin t)" by blast
  then have "\<exists>t. TR ?h ?l ?c ! 1 = Fin t" by simp
  with a r n show ?thesis by blast
qed

subsection \<open>C5: what an undefined value does\<close>

text \<open>
  C5 as the specification states it: every formula with an undefined operand gives an
  undefined result, and no undefined cell is shown as 0, the DX cells below the first
  defined index included.  On a table of fifteen rows with the price 1 everywhere, except
  that \<^verbatim>\<open>Low\<close> of row 1 and \<^verbatim>\<open>High\<close> and \<^verbatim>\<open>Low\<close> of row 2 are the text \<^verbatim>\<open>n/a\<close>, these cells
  are read as undefined and the program departs from that in four places.  In row 1 the
  first candidate of the true range is undefined, and TR is 0.  In row 2 the up move is
  undefined, and \<^verbatim>\<open>+DM 1\<close> and \<^verbatim>\<open>-DM 1\<close> are 0.  TR of row 2 is undefined, and \<^verbatim>\<open>TR14\<close> at
  index 14, which sums the rows 1 to 14, is defined.  The quotient behind DX in row 0 is
  undefined, and the DX cell is 0, also after the rounding of the output.
\<close>

theorem undefined_propagation_counterexample:
  "(let L = \<lparr>text_to_number = (\<lambda>s. None), float_to_text = (\<lambda>v. []), int_to_text = (\<lambda>k. [])\<rparr>;
        high = to_numeric L ([Num (Fin 1), Num (Fin 1), Txt ''n/a''] @ replicate 12 (Num (Fin 1)));
        low = to_numeric L ([Num (Fin 1), Txt ''n/a'', Txt ''n/a''] @ replicate 12 (Num (Fin 1)));
        close = to_numeric L (replicate 15 (Num (Fin 1)))
    in floats low ! 1 = NaN \<and> floats high ! 2 = NaN \<and> floats low ! 2 = NaN \<and>
       floats (TR1 high low) ! 1 = NaN \<and> TR high low close ! 1 = Fin 0 \<and>
       UpMove high ! 2 = NaN \<and> plus_DM_1 high low ! 2 = Fin 0 \<and> minus_DM_1 high low ! 2 = Fin 0 \<and>
       TR high low close ! 2 = NaN \<and> TR14 high low close ! 14 = Fin 0 \<and>
       DX_ratio high low close ! 0 = NaN \<and> DX high low close ! 0 = Fin 0 \<and>
       round_cell (Num (DX high low close ! 0)) = Num (Fin 0))"
  by code_simp

text \<open>
  C5 as amended.  A cell of Open/High/Low/Close that is not numeric is read as undefined
  (no abort).  In a row \<open>i\<close>, an undefined operand makes the result undefined in each of
  these formulas: the previous-row columns \<^verbatim>\<open>Prev_Close\<close>, \<^verbatim>\<open>Prev_High\<close>, \<^verbatim>\<open>Prev_Low\<close>,
  the candidates \<^verbatim>\<open>TR1\<close>, \<^verbatim>\<open>TR2\<close>, \<^verbatim>\<open>TR3\<close>, \<^verbatim>\<open>UpMove\<close>, \<^verbatim>\<open>DownMove\<close>, \<^verbatim>\<open>+DI14\<close>, \<^verbatim>\<open>-DI14\<close>,
  \<^verbatim>\<open>DI 14 Diff\<close>, \<^verbatim>\<open>DI 14 Sum\<close> and the quotient behind DX; an undefined cell of \<^verbatim>\<open>TR14\<close>,
  \<^verbatim>\<open>+DM14\<close> or \<^verbatim>\<open>-DM14\<close> at or after index 14, or of ADX at or after index 27, makes the
  next cell of its column undefined; and the rounding of the output leaves a cell
  undefined exactly when it was.  Four steps do not propagate an undefined value:
  \<^enum> \<open>TR[i]\<close>, \<open>i > 0\<close>, is undefined if and only if \<^verbatim>\<open>TR1\<close>, \<^verbatim>\<open>TR2\<close> and \<^verbatim>\<open>TR3\<close> of the row
    all are;
  \<^enum> \<^verbatim>\<open>+DM 1\<close> and \<^verbatim>\<open>-DM 1\<close> of a row \<open>i > 0\<close> are 0 when the up move or the down move of
    the row is undefined;
  \<^enum> the smoothed series \<^verbatim>\<open>TR14\<close>, \<^verbatim>\<open>+DM14\<close> and \<^verbatim>\<open>-DM14\<close> count an undefined raw cell as
    0, in the sum stored at index 14 and in the recursion after it;
  \<^enum> \<open>DX[i]\<close> is 0 where its quotient is undefined or infinite, and the quotient
    elsewhere; so no DX cell is undefined, and DX is 0 below index 14.
\<close>

theorem undefined_propagation:
  assumes "i < length (floats high)"
    and "length (floats low) = length (floats high)"
    and "length (floats close) = length (floats high)"
  shows "(\<forall>col s. i < length col \<and> col ! i = Txt s \<and> text_to_number L s = None \<longrightarrow>
            floats (to_numeric L col) ! i = NaN) \<and>
         (0 < i \<and> floats close ! (i - 1) = NaN \<longrightarrow> Prev_Close close ! i = NaN) \<and>
         (0 < i \<and> floats high ! (i - 1) = NaN \<longrightarrow> Prev_High high ! i = NaN) \<and>
         (0 < i \<and> floats low ! (i - 1) = NaN \<longrightarrow> Prev_Low low ! i = NaN) \<and>
         (floats high ! i = NaN \<or> floats low ! i = NaN \<longrightarrow> floats (TR1 high low) ! i = NaN) \<and>
         (floats high ! i = NaN \<or> Prev_Close close ! i = NaN \<longrightarrow> TR2 high close ! i = NaN) \<and>
         (floats low ! i = NaN \<or> Prev_Close close ! i = NaN \<longrightarrow> TR3 low close ! i = NaN) \<and>
         (floats high ! i = NaN \<or> Prev_High high ! i = NaN \<longrightarrow> UpMove high ! i = NaN) \<and>
         (floats low ! i = NaN \<or> Prev_Low low ! i = NaN \<longrightarrow> DownMove low ! i = NaN) \<and>
         (N < i \<and> TR14 high low close ! (i - 1) = NaN \<longrightarrow> TR14 high low close ! i = NaN) \<and>
         (N < i \<and> plus_DM14 high low ! (i - 1) = NaN \<longrightarrow> plus_DM14 high low ! i = NaN) \<and>
         (N < i \<and> minus_DM14 high low ! (i - 1) = NaN \<longrightarrow> minus_DM14 high low ! i = NaN) \<and>
         (plus_DM14 high low ! i = NaN \<or> TR14 high low close ! i = NaN \<longrightarrow>
            plus_DI14 high low close ! i = NaN) \<and>
         (minus_DM14 high low ! i = NaN \<or> TR14 high low close ! i = NaN \<longrightarrow>
            minus_DI14 high low close ! i = NaN) \<and>
         (plus_DI14 high low close ! i = NaN \<or> minus_DI14 high low close ! i = NaN \<longrightarrow>
            DI_14_Diff high low close ! i = NaN \<and> DI_14_Sum high low close ! i = NaN) \<and>
         (DI_14_Diff high low close ! i = NaN \<or> DI_14_Sum high low close ! i = NaN \<longrightarrow>
            DX_ratio high low close ! i = NaN) \<and>
         (2 * N - 1 < i \<and> ADX high low close ! (i - 1) = NaN \<longrightarrow> ADX high low close ! i = NaN) \<and>
         (\<forall>v. (round_cell (Num v) = Num NaN) = (v = NaN)) \<and>
         (0 < i \<longrightarrow>
            (TR high low close ! i = NaN) =
            (floats (TR1 high low) ! i = NaN \<and> TR2 high close ! i = NaN \<and> TR3 low close ! i = NaN)) \<and>
         (0 < i \<and> (UpMove high ! i = NaN \<or> DownMove low ! i = NaN) \<longrightarrow>
            plus_DM_1 high low ! i = Fin 0 \<and> minus_DM_1 high low ! i = Fin 0) \<and>
         (i = N \<longrightarrow>
            TR14 high low close ! i = nansum (take N (drop 1 (TR high low close))) \<and>
            plus_DM14 high low ! i = nansum (take N (drop 1 (plus_DM_1 high low))) \<and>
            minus_DM14 high low ! i = nansum (take N (drop 1 (minus_DM_1 high low)))) \<and>
         (N < i \<longrightarrow>
            TR14 high low close ! i =
              fadd (fsub (TR14 high low close ! (i - 1))
                         (fdiv (TR14 high low close ! (i - 1)) (Fin (real N))))
                   (if TR high low close ! i = NaN then Fin 0 else TR high low close ! i) \<and>
            plus_DM14 high low ! i =
              fadd (fsub (plus_DM14 high low ! (i - 1))
                         (fdiv (plus_DM14 high low ! (i - 1)) (Fin (real N))))
                   (if plus_DM_1 high low ! i = NaN then Fin 0 else plus_DM_1 high low ! i) \<and>
            minus_DM14 high low ! i =
              fadd (fsub (minus_DM14 high low ! (i - 1))
                         (fdiv (minus_DM14 high low ! (i - 1)) (Fin (real N))))
                   (if minus_DM_1 high low ! i = NaN then Fin 0 else minus_DM_1 high low ! i)) \<and>
         DX high low close ! i =
           (if DX_ratio high low close ! i = NaN \<or> DX_ratio high low close ! i = PInf \<or>
               DX_ratio high low close ! i = MInf
            then Fin 0 else DX_ratio high low close ! i) \<and>
         DX high low close ! i \<noteq> NaN \<and>
         (i < N \<longrightarrow> DX high low close ! i = Fin 0)"
proof -
  from assms have il: "i < length (floats low)" and ic: "i < length (floats close)" by simp_all
  note ih = assms(1)
  have len: "length (TR high low close) = length (floats high)"
    "length (plus_DM_1 high low) = length (floats high)"
    "length (minus_DM_1 high low) = length (floats high)"
    using assms by simp_all
  have c1: "\<forall>col s. i < length col \<and> col ! i = Txt s \<and> text_to_number L s = None \<longrightarrow>
      floats (to_numeric L col) ! i = NaN"
    by (simp add: to_numeric_Txt)
  have c2: "0 < i \<and> floats close ! (i - 1) = NaN \<longrightarrow> Prev_Close close ! i = NaN"
    using ic by (simp add: Prev_Close_def shift1_nth)
  have c3: "0 < i \<and> floats high ! (i - 1) = NaN \<longrightarrow> Prev_High high ! i = NaN"
    using ih by (simp add: Prev_High_def shift1_nth)
  have c4: "0 < i \<and> floats low ! (i - 1) = NaN \<longrightarrow> Prev_Low low ! i = NaN"
    using il by (simp add: Prev_Low_def shift1_nth)
  have c5: "floats high ! i = NaN \<or> floats low ! i = NaN \<longrightarrow> floats (TR1 high low) ! i = NaN"
    using TR1_NaN [OF ih il] by blast
  have c6: "floats high ! i = NaN \<or> Prev_Close close ! i = NaN \<longrightarrow> TR2 high close ! i = NaN"
    using ih ic by (auto simp: TR2_nth)
  have c7: "floats low ! i = NaN \<or> Prev_Close close ! i = NaN \<longrightarrow> TR3 low close ! i = NaN"
    using il ic by (auto simp: TR3_nth)
  have c8: "floats high ! i = NaN \<or> Prev_High high ! i = NaN \<longrightarrow> UpMove high ! i = NaN"
    using ih by (auto simp: UpMove_nth)
  have c9: "floats low ! i = NaN \<or> Prev_Low low ! i = NaN \<longrightarrow> DownMove low ! i = NaN"
    using il by (auto simp: DownMove_nth)
  have c10: "N < i \<and> TR14 high low close ! (i - 1) = NaN \<longrightarrow> TR14 high low close ! i = NaN"
    using ih len(1) by (simp add: TR14_def wilder_NaN_step)
  have c11: "N < i \<and> plus_DM14 high low ! (i - 1) = NaN \<longrightarrow> plus_DM14 high low ! i = NaN"
    using ih len(2) by (simp add: plus_DM14_def wilder_NaN_step)
  have c12: "N < i \<and> minus_DM14 high low ! (i - 1) = NaN \<longrightarrow> minus_DM14 high low ! i = NaN"
    using ih len(3) by (simp add: minus_DM14_def wilder_NaN_step)
  have c13: "plus_DM14 high low ! i = NaN \<or> TR14 high low close ! i = NaN \<longrightarrow>
      plus_DI14 high low close ! i = NaN"
    using ih il ic by (auto simp: plus_DI14_nth)
  have c14: "minus_DM14 high low ! i = NaN \<or> TR14 high low close ! i = NaN \<longrightarrow>
      minus_DI14 high low close ! i = NaN"
    using ih il ic by (auto simp: minus_DI14_nth)
  have c15: "plus_DI14 high low close ! i = NaN \<or> minus_DI14 high low close ! i = NaN \<longrightarrow>
      DI_14_Diff high low close ! i = NaN \<and> DI_14_Sum high low close ! i = NaN"
    using ih il ic by (auto simp: DI_14_Diff_nth DI_14_Sum_nth)
  have c16: "DI_14_Diff high low close ! i = NaN \<or> DI_14_Sum high low close ! i = NaN \<longrightarrow>
      DX_ratio high low close ! i = NaN"
    using ih il ic by (auto simp: DX_ratio_nth)
  have c17: "2 * N - 1 < i \<and> ADX high low close ! (i - 1) = NaN \<longrightarrow> ADX high low close ! i = NaN"
    using ih il ic by (simp add: ADX_NaN_step)
  have c18: "\<forall>v. (round_cell (Num v) = Num NaN) = (v = NaN)"
    by (simp only: round_cell_NaN_iff) simp
  have e1: "0 < i \<longrightarrow>
      (TR high low close ! i = NaN) =
      (floats (TR1 high low) ! i = NaN \<and> TR2 high close ! i = NaN \<and> TR3 low close ! i = NaN)"
    using ih il ic by (simp add: TR_nth_pos TR_max_nth row_max_NaN_iff)
  have e2: "0 < i \<and> (UpMove high ! i = NaN \<or> DownMove low ! i = NaN) \<longrightarrow>
      plus_DM_1 high low ! i = Fin 0 \<and> minus_DM_1 high low ! i = Fin 0"
    using ih il by (auto simp: plus_DM_1_nth minus_DM_1_nth)
  have e3: "i = N \<longrightarrow>
      TR14 high low close ! i = nansum (take N (drop 1 (TR high low close))) \<and>
      plus_DM14 high low ! i = nansum (take N (drop 1 (plus_DM_1 high low))) \<and>
      minus_DM14 high low ! i = nansum (take N (drop 1 (minus_DM_1 high low)))"
    using ih len by (simp add: TR14_def plus_DM14_def minus_DM14_def wilder_fillna0_seed)
  have e4: "N < i \<longrightarrow>
      TR14 high low close ! i =
        fadd (fsub (TR14 high low close ! (i - 1))
                   (fdiv (TR14 high low close ! (i - 1)) (Fin (real N))))
             (if TR high low close ! i = NaN then Fin 0 else TR high low close ! i) \<and>
      plus_DM14 high low ! i =
        fadd (fsub (plus_DM14 high low ! (i - 1))
                   (fdiv (plus_DM14 high low ! (i - 1)) (Fin (real N))))
             (if plus_DM_1 high low ! i = NaN then Fin 0 else plus_DM_1 high low ! i) \<and>
      minus_DM14 high low ! i =
        fadd (fsub (minus_DM14 high low ! (i - 1))
                   (fdiv (minus_DM14 high low ! (i - 1)) (Fin (real N))))
             (if minus_DM_1 high low ! i = NaN then Fin 0 else minus_DM_1 high low ! i)"
  proof
    assume n: "N < i"
    have a: "i < length (TR high low close)" "i < length (plus_DM_1 high low)"
      "i < length (minus_DM_1 high low)" using ih len by simp_all
    show "TR14 high low close ! i =
        fadd (fsub (TR14 high low close ! (i - 1))
                   (fdiv (TR14 high low close ! (i - 1)) (Fin (real N))))
             (if TR high low close ! i = NaN then Fin 0 else TR high low close ! i) \<and>
      plus_DM14 high low ! i =
        fadd (fsub (plus_DM14 high low ! (i - 1))
                   (fdiv (plus_DM14 high low ! (i - 1)) (Fin (real N))))
             (if plus_DM_1 high low ! i = NaN then Fin 0 else plus_DM_1 high low ! i) \<and>
      minus_DM14 high low ! i =
        fadd (fsub (minus_DM14 high low ! (i - 1))
                   (fdiv (minus_DM14 high low ! (i - 1)) (Fin (real N))))
             (if minus_DM_1 high low ! i = NaN then Fin 0 else minus_DM_1 high low ! i)"
      unfolding TR14_def plus_DM14_def minus_DM14_def
      using wilder_fillna0_rec [OF n a(1)] wilder_fillna0_rec [OF n a(2)]
        wilder_fillna0_rec [OF n a(3)]
      by blast
  qed
  have e5: "DX high low close ! i =
      (if DX_ratio high low close ! i = NaN \<or> DX_ratio high low close ! i = PInf \<or>
          DX_ratio high low close ! i = MInf
       then Fin 0 else DX_ratio high low close ! i)"
    using ih il ic by (simp add: DX_nth)
  have e6: "DX high low close ! i \<noteq> NaN"
    using e5 by (simp split: if_splits)
  have e7: "i < N \<longrightarrow> DX high low close ! i = Fin 0"
  proof
    assume "i < N"
    then have "TR14 high low close ! i = NaN" using ih il ic by (simp add: TR14_below)
    with c13 c14 have "plus_DI14 high low close ! i = NaN" by blast
    with c15 have "DI_14_Diff high low close ! i = NaN" by blast
    with c16 have "DX_ratio high low close ! i = NaN" by blast
    with e5 show "DX high low close ! i = Fin 0" by simp
  qed
  show ?thesis
    apply (intro conjI)
    apply (rule c1)
    apply (rule c2)
    apply (rule c3)
    apply (rule c4)
    apply (rule c5)
    apply (rule c6)
    apply (rule c7)
    apply (rule c8)
    apply (rule c9)
    apply (rule c10)
    apply (rule c11)
    apply (rule c12)
    apply (rule c13)
    apply (rule c14)
    apply (rule c15)
    apply (rule c16)
    apply (rule c17)
    apply (rule c18)
    apply (rule e1)
    apply (rule e2)
    apply (rule e3)
    apply (rule e4)
    apply (rule e5)
    apply (rule e6)
    apply (rule e7)
    done
qed

theorem undefined_propagation_witness:
  "(1::nat) < length (floats (Float64 [Fin 1, NaN])) \<and>
   length (floats (Float64 [Fin 1, Fin 1])) = length (floats (Float64 [Fin 1, NaN])) \<and>
   floats (Float64 [Fin 1, NaN]) ! 1 = NaN \<and>
   floats (TR1 (Float64 [Fin 1, NaN]) (Float64 [Fin 1, Fin 1])) ! 1 = NaN \<and>
   UpMove (Float64 [Fin 1, NaN]) ! 1 = NaN \<and>
   TR (Float64 [Fin 1, NaN]) (Float64 [Fin 1, Fin 1]) (Float64 [Fin 1, Fin 1]) ! 1 \<noteq> NaN \<and>
   plus_DM_1 (Float64 [Fin 1, NaN]) (Float64 [Fin 1, Fin 1]) ! 1 = Fin 0 \<and>
   minus_DM_1 (Float64 [Fin 1, NaN]) (Float64 [Fin 1, Fin 1]) ! 1 = Fin 0 \<and>
   DX (Float64 [Fin 1, NaN]) (Float64 [Fin 1, Fin 1]) (Float64 [Fin 1, Fin 1]) ! 1 = Fin 0"
proof -
  let ?h = "Float64 [Fin 1, NaN]" and ?l = "Float64 [Fin 1, Fin 1]"
  have a: "1 < length (floats ?h)" "length (floats ?l) = length (floats ?h)" by simp_all
  let ?L = "\<lparr>text_to_number = (\<lambda>s. None), float_to_text = (\<lambda>v. []), int_to_text = (\<lambda>k. [])\<rparr>"
  note t = undefined_propagation [where L = ?L, OF a a(2)]
  have n: "floats ?h ! 1 = NaN" by simp
  have "floats ?h ! 1 = NaN \<or> floats ?l ! 1 = NaN \<longrightarrow> floats (TR1 ?h ?l) ! 1 = NaN"
    by (insert t, elim conjE, assumption)
  with n have p1: "floats (TR1 ?h ?l) ! 1 = NaN" by simp
  have "floats ?h ! 1 = NaN \<or> Prev_High ?h ! 1 = NaN \<longrightarrow> UpMove ?h ! 1 = NaN"
    by (insert t, elim conjE, assumption)
  with n have p2: "UpMove ?h ! 1 = NaN" by simp
  have q: "TR3 ?l ?l ! 1 \<noteq> NaN" by code_simp
  have "(0::nat) < 1 \<longrightarrow> (TR ?h ?l ?l ! 1 = NaN) =
      (floats (TR1 ?h ?l) ! 1 = NaN \<and> TR2 ?h ?l ! 1 = NaN \<and> TR3 ?l ?l ! 1 = NaN)"
    by (insert t, elim conjE, assumption)
  with q have p3: "TR ?h ?l ?l ! 1 \<noteq> NaN" by simp
  have "(0::nat) < 1 \<and> (UpMove ?h ! 1 = NaN \<or> DownMove ?l ! 1 = NaN) \<longrightarrow>
      plus_DM_1 ?h ?l ! 1 = Fin 0 \<and> minus_DM_1 ?h ?l ! 1 = Fin 0"
    by (insert t, elim conjE, assumption)
  with p2 have p4: "plus_DM_1 ?h ?l ! 1 = Fin 0" "minus_DM_1 ?h ?l ! 1 = Fin 0" by simp_all
  have "1 < N \<longrightarrow> DX ?h ?l ?l ! 1 = Fin 0"
    by (insert t, elim conjE, assumption)
  then have p5: "DX ?h ?l ?l ! 1 = Fin 0" by (simp add: N_def)
  show ?thesis
    apply (intro conjI)
    apply (rule a(1))
    apply (rule a(2))
    apply (rule n)
    apply (rule p1)
    apply (rule p2)
    apply (rule p3)
    apply (rule p4(1))
    apply (rule p4(2))
    apply (rule p5)
    done
qed

subsection \<open>C6: the error for missing columns\<close>

text \<open>
  C6: the fields that the header rules cannot identify are the keys that
  \<^verbatim>\<open>detect_ohlc_columns\<close> maps to \<^verbatim>\<open>None\<close>, among \<^verbatim>\<open>open\<close>, \<^verbatim>\<open>high\<close>, \<^verbatim>\<open>low\<close>, \<^verbatim>\<open>close\<close>.  If
  there is one, the call raises \<^verbatim>\<open>ValueError\<close> with a message that lists every one of them,
  in that order; no table is returned, and the store then holds, besides what it held,
  only the copy of the input, as it was copied: no column was derived.  If there is none,
  the call raises no error of missing columns.
\<close>

theorem missing_columns_error:
  assumes "input_df < length h"
  shows "(let ohlc_map = detect_ohlc_columns (h ! input_df);
              missing = map fst (filter (\<lambda>(k, v). v = None) ohlc_map)
          in map fst ohlc_map = [''open'', ''high'', ''low'', ''close''] \<and>
             (missing \<noteq> [] \<longrightarrow>
                calculate_adx L h input_df =
                  (Inl (ValueError (''Missing OHLC columns in input CSV: '' @ join '', '' missing)),
                   h @ [h ! input_df])) \<and>
             (missing = [] \<longrightarrow>
                (\<forall>fields. fst (calculate_adx L h input_df) \<noteq>
                   Inl (ValueError (''Missing OHLC columns in input CSV: '' @ fields)))))"
proof -
  let ?m = "detect_ohlc_columns (h ! input_df)"
  let ?missing = "map fst (filter (\<lambda>(k, v). v = None) ?m)"
  have a: "map fst ?m = [''open'', ''high'', ''low'', ''close'']" by (rule detect_keys)
  have b: "?missing \<noteq> [] \<longrightarrow>
      calculate_adx L h input_df =
        (Inl (ValueError (''Missing OHLC columns in input CSV: '' @ join '', '' ?missing)),
         h @ [h ! input_df])"
  proof
    assume "?missing \<noteq> []"
    then have "None \<in> snd ` set ?m" by (simp add: none_in_values_iff)
    from calculate_adx_missing [OF assms this] show "calculate_adx L h input_df =
        (Inl (ValueError (''Missing OHLC columns in input CSV: '' @ join '', '' ?missing)),
         h @ [h ! input_df])"
      by (simp only: missing_message_def)
  qed
  have c: "?missing = [] \<longrightarrow>
      (\<forall>fields. fst (calculate_adx L h input_df) \<noteq>
         Inl (ValueError (''Missing OHLC columns in input CSV: '' @ fields)))"
  proof (intro impI allI)
    fix fields
    assume "?missing = []"
    then have "None \<notin> snd ` set ?m" by (simp add: none_in_values_iff)
    from calculate_adx_no_ValueError [OF assms this]
    show "fst (calculate_adx L h input_df) \<noteq>
        Inl (ValueError (''Missing OHLC columns in input CSV: '' @ fields))" .
  qed
  from a b c show ?thesis unfolding Let_def by blast
qed

theorem missing_columns_error_witness:
  "(let L = \<lparr>text_to_number = (\<lambda>s. None), float_to_text = (\<lambda>v. []), int_to_text = (\<lambda>k. [])\<rparr>;
        f = [(''Date'', []), (''open'', []), (''xlowx'', []), (''d'', [])];
        g = [(''O'', []), (''H'', []), (''L'', []), (''C'', [])]
    in (0::nat) < length [f] \<and>
       calculate_adx L [f] 0 =
         (Inl (ValueError ''Missing OHLC columns in input CSV: high, close''), [f, f]) \<and>
       fst (calculate_adx L [g] 0) \<noteq> Inl (ValueError ''Missing OHLC columns in input CSV: open''))"
proof -
  let ?L = "\<lparr>text_to_number = (\<lambda>s. None), float_to_text = (\<lambda>v. []), int_to_text = (\<lambda>k. [])\<rparr>"
  let ?f = "[(''Date'', []), (''open'', []), (''xlowx'', []), (''d'', [])] :: frame"
  let ?g = "[(''O'', []), (''H'', []), (''L'', []), (''C'', [])] :: frame"
  have df: "detect_ohlc_columns ?f =
      [(''open'', Some ''open''), (''high'', None), (''low'', Some ''xlowx''), (''close'', None)]"
    by code_simp
  have dg: "detect_ohlc_columns ?g =
      [(''open'', Some ''O''), (''high'', Some ''H''), (''low'', Some ''L''), (''close'', Some ''C'')]"
    by code_simp
  have l: "(0::nat) < length [?f]" "(0::nat) < length [?g]" by simp_all
  have p: "calculate_adx ?L [?f] 0 =
      (Inl (ValueError ''Missing OHLC columns in input CSV: high, close''), [?f, ?f])"
    using missing_columns_error [OF l(1), of ?L] by (simp add: df Let_def)
  have q: "fst (calculate_adx ?L [?g] 0) \<noteq> Inl (ValueError ''Missing OHLC columns in input CSV: open'')"
    using missing_columns_error [OF l(2), of ?L] by (simp add: dg Let_def)
  from l p q show ?thesis by (simp add: Let_def)
qed

subsection \<open>C10: the computation is a function of the input table, which it leaves as it was\<close>

text \<open>
  C10: a call of \<^verbatim>\<open>calculate_adx\<close> on a table of the store leaves every table that the store
  held as it was, the input table among them (the call works on a copy); and its result,
  the table returned or the exception raised, is the same for every store and address
  at which the same input table stands: it depends on nothing but the input table.
\<close>

theorem calculate_adx_pure:
  assumes "input_df < length h"
  shows "(\<forall>r < length h. snd (calculate_adx L h input_df) ! r = h ! r) \<and>
         (\<forall>h' r'. r' < length h' \<and> h' ! r' = h ! input_df \<longrightarrow>
            fst (calculate_adx L h' r') = fst (calculate_adx L h input_df))"
proof (intro conjI allI impI)
  fix r assume "r < length h"
  with assms show "snd (calculate_adx L h input_df) ! r = h ! r" by (rule calculate_adx_store)
next
  fix h' r'
  assume a: "r' < length h' \<and> h' ! r' = h ! input_df"
  then have "r' < length h'" and e: "h' ! r' = h ! input_df" by simp_all
  from calculate_adx_result [OF this(1), of L] calculate_adx_result [OF assms, of L]
  show "fst (calculate_adx L h' r') = fst (calculate_adx L h input_df)"
    by (simp only: e)
qed

theorem calculate_adx_pure_witness:
  "(let L = \<lparr>text_to_number = (\<lambda>s. None), float_to_text = (\<lambda>v. []), int_to_text = (\<lambda>k. [])\<rparr>;
        f = [(''Open'', [Num (Fin 1), Num (Fin 2)]), (''High'', [Num (Fin 3), Num (Fin 4)]),
             (''Low'', [Num (Fin 1), Num (Fin 1)]), (''Close'', [Num (Fin 2), Num (Fin 3)])]
    in (0::nat) < length [f] \<and>
       snd (calculate_adx L [f] 0) ! 0 = f \<and>
       fst (calculate_adx L [[], f] 1) = fst (calculate_adx L [f] 0))"
proof -
  let ?L = "\<lparr>text_to_number = (\<lambda>s. None), float_to_text = (\<lambda>v. []), int_to_text = (\<lambda>k. [])\<rparr>"
  let ?f = "[(''Open'', [Num (Fin 1), Num (Fin 2)]), (''High'', [Num (Fin 3), Num (Fin 4)]),
             (''Low'', [Num (Fin 1), Num (Fin 1)]), (''Close'', [Num (Fin 2), Num (Fin 3)])]"
  have l: "(0::nat) < length [?f]" by simp
  note t = calculate_adx_pure [OF l, of ?L]
  from t have "\<forall>r < length [?f]. snd (calculate_adx ?L [?f] 0) ! r = [?f] ! r" by (rule conjunct1)
  then have p: "snd (calculate_adx ?L [?f] 0) ! 0 = ?f" by simp
  from t have "\<forall>h' r'. r' < length h' \<and> h' ! r' = [?f] ! 0 \<longrightarrow>
      fst (calculate_adx ?L h' r') = fst (calculate_adx ?L [?f] 0)" by (rule conjunct2)
  then have "1 < length [[], ?f] \<and> [[], ?f] ! 1 = [?f] ! 0 \<longrightarrow>
      fst (calculate_adx ?L [[], ?f] 1) = fst (calculate_adx ?L [?f] 0)" by blast
  then have q: "fst (calculate_adx ?L [[], ?f] 1) = fst (calculate_adx ?L [?f] 0)" by simp
  from l p q show ?thesis by (simp add: Let_def)
qed

end
